theory Spec2Isabelle
  imports Main "HOL-Library.AList" "HOL-Library.Char_ord" "HOL-Library.List_Lexorder"
begin

section \<open>The pin data model (pin.py, esp32\_pin\_data.py)\<close>

text \<open>
  The dataclass \<^verbatim>\<open>Pin\<close> of pin.py. Python strings are modelled as \<^typ>\<open>string\<close>;
  the only characters of the data set outside ASCII are the en dashes (U+2013) of the
  function labels, written as their three UTF-8 bytes. The fields \<^verbatim>\<open>functions\<close> and
  \<^verbatim>\<open>note\<close> are keywords of Isabelle and carry the prefix \<open>pin_\<close>.
\<close>

record pin =
  name :: string
  pin_functions :: "string list"
  pin_type :: string
  pin_note :: string

definition Pin :: "string \<Rightarrow> string list \<Rightarrow> string \<Rightarrow> string \<Rightarrow> pin" where
  "Pin n fs t nt = \<lparr>name = n, pin_functions = fs, pin_type = t, pin_note = nt\<rparr>"

text \<open>The constructor with the default \<^verbatim>\<open>note: str = ""\<close>.\<close>

definition Pin3 :: "string \<Rightarrow> string list \<Rightarrow> string \<Rightarrow> pin" where
  "Pin3 n fs t = Pin n fs t []"

definition en_dash :: string where
  "en_dash = [CHR 0xE2, CHR 0x80, CHR 0x93]"

text \<open>The label \<^verbatim>\<open>'ADC2 -CH1-'\<close> and its like: a word, then a tag between en dashes.\<close>

definition dashed :: "string \<Rightarrow> string \<Rightarrow> string" where
  "dashed w t = w @ '' '' @ en_dash @ t @ en_dash"

text \<open>
  A Python \<^verbatim>\<open>dict\<close> keeps its keys in insertion order, and storing under a key that
  is already present replaces the value in place. It is modelled as an association list
  updated with \<^const>\<open>AList.update\<close>, which does exactly that; a dict display
  \<^verbatim>\<open>{k1: v1, k2: v2, ...}\<close> stores its items from left to right.
\<close>

type_synonym ('k, 'v) dict = "('k \<times> 'v) list"

definition dict_display :: "('k \<times> 'v) list \<Rightarrow> ('k, 'v) dict" where
  "dict_display items = foldl (\<lambda>d kv. AList.update (fst kv) (snd kv) d) [] items"

text \<open>\<^verbatim>\<open>d.get(k)\<close>: the value, or \<^verbatim>\<open>None\<close>.\<close>

definition dict_get :: "('k, 'v) dict \<Rightarrow> 'k \<Rightarrow> 'v option" where
  "dict_get d k = map_of d k"

text \<open>\<^verbatim>\<open>d.keys()\<close> and \<^verbatim>\<open>k in d\<close>.\<close>

definition dict_keys :: "('k, 'v) dict \<Rightarrow> 'k list" where
  "dict_keys d = map fst d"

definition dict_contains :: "('k, 'v) dict \<Rightarrow> 'k \<Rightarrow> bool" where
  "dict_contains d k = (k \<in> set (map fst d))"

text \<open>\<^verbatim>\<open>s.startswith(p)\<close>.\<close>

definition startswith :: "string \<Rightarrow> string \<Rightarrow> bool" where
  "startswith s p = (take (length p) s = p)"

text \<open>The items of the dict display returned by \<^verbatim>\<open>_initialize_pins\<close>, in source order.\<close>

definition pin_items :: "(string \<times> pin) list" where
  "pin_items =
  [ (''GPIO0'', Pin ''GPIO0'' [''Boot button'', dashed ''ADC2'' ''CH1'', ''PWM''] ''Input/Output''
        ''Pull-down during boot to flash''),
    (''GPIO1'', Pin ''GPIO1 (TX0)'' [''UART0 TX'', ''PWM''] ''Input/Output''
        ''Used for UART logging''),
    (''GPIO2'', Pin ''GPIO2'' [dashed ''ADC2'' ''CH2'', ''PWM''] ''Input/Output''
        ''Must be low to enter boot mode''),
    (''GPIO3'', Pin ''GPIO3 (RX0)'' [''UART0 RX'', ''PWM''] ''Input/Output''
        ''Used for UART logging''),
    (''GPIO4'', Pin3 ''GPIO4'' [dashed ''ADC2'' ''CH0'', ''PWM''] ''Input/Output''),
    (''GPIO5'', Pin ''GPIO5'' [dashed ''VSPI'' ''SS'', ''PWM''] ''Input/Output''
        ''Must be high during boot''),
    (''GPIO6'', Pin ''GPIO6'' [''Integrated SPI Flash SCK''] ''Internal (do not use)''
        ''Connected to SPI flash; using will cause boot failure''),
    (''GPIO7'', Pin ''GPIO7'' [''Integrated SPI Flash SD0''] ''Internal (do not use)''
        ''Connected to SPI flash; using will cause boot failure''),
    (''GPIO8'', Pin ''GPIO8'' [''Integrated SPI Flash SD1''] ''Internal (do not use)''
        ''Connected to SPI flash; using will cause boot failure''),
    (''GPIO9'', Pin ''GPIO9'' [''Integrated SPI Flash SD2''] ''Internal (do not use)''
        ''Connected to SPI flash; using will cause boot failure''),
    (''GPIO10'', Pin ''GPIO10'' [''Integrated SPI Flash SD3''] ''Internal (do not use)''
        ''Connected to SPI flash; using will cause boot failure''),
    (''GPIO11'', Pin ''GPIO11'' [''Integrated SPI Flash CMD''] ''Internal (do not use)''
        ''Connected to SPI flash; using will cause boot failure''),
    (''GPIO12'', Pin ''GPIO12'' [dashed ''ADC2'' ''CH5'', dashed ''HSPI'' ''MISO'', ''PWM'']
        ''Input only'' ''Must be low during boot &  , Only Digital if WiFi is used''),
    (''GPIO13'', Pin ''GPIO13'' [dashed ''ADC2'' ''CH4'', dashed ''HSPI'' ''MOSI'', ''PWM'']
        ''Input/Output'' ''Only Digital if WiFi is used''),
    (''GPIO14'', Pin ''GPIO14'' [dashed ''ADC2'' ''CH6'', dashed ''HSPI'' ''CLK'', ''PWM'']
        ''Input/Output'' ''Only Digital if WiFi is used''),
    (''GPIO15'', Pin ''GPIO15'' [dashed ''ADC2'' ''CH3'', dashed ''HSPI'' ''SS'', ''PWM'']
        ''Input/Output'' ''Must be low during boot &  , Only Digital if WiFi is used''),
    (''GPIO16'', Pin3 ''GPIO16'' [dashed ''UART2'' ''RX'', ''PWM''] ''Input/Output''),
    (''GPIO17'', Pin3 ''GPIO17'' [dashed ''UART2'' ''TX'', ''PWM''] ''Input/Output''),
    (''GPIO18'', Pin3 ''GPIO18'' [dashed ''VSPI'' ''CLK'', ''PWM''] ''Input/Output''),
    (''GPIO19'', Pin3 ''GPIO19'' [dashed ''VSPI'' ''MISO'', ''PWM''] ''Input/Output''),
    (''GPIO21'', Pin3 ''GPIO21'' [dashed ''I2C'' ''SDA'', ''PWM''] ''Input/Output''),
    (''GPIO22'', Pin3 ''GPIO22'' [dashed ''I2C'' ''SCL'', ''PWM''] ''Input/Output''),
    (''GPIO23'', Pin3 ''GPIO23'' [dashed ''VSPI'' ''MOSI'', ''PWM''] ''Input/Output''),
    (''GPIO25'', Pin ''GPIO25'' [''DAC1'', dashed ''ADC2'' ''CH8'', ''PWM''] ''Input/Output''
        ''Only Digital if WiFi is used''),
    (''GPIO26'', Pin ''GPIO26'' [''DAC2'', dashed ''ADC2'' ''CH9'', ''PWM''] ''Input/Output''
        ''Only Digital if WiFi is used''),
    (''GPIO27'', Pin ''GPIO27'' [dashed ''ADC2'' ''CH7'', ''PWM''] ''Input/Output''
        ''Only Digital if WiFi is used''),
    (''GPIO32'', Pin3 ''GPIO32'' [dashed ''ADC1'' ''CH4'', ''PWM''] ''Input/Output''),
    (''GPIO33'', Pin3 ''GPIO33'' [dashed ''ADC1'' ''CH5'', ''PWM''] ''Input/Output''),
    (''GPIO34'', Pin3 ''GPIO34'' [dashed ''ADC1'' ''CH6''] ''Input only''),
    (''GPIO35'', Pin3 ''GPIO35'' [dashed ''ADC1'' ''CH7''] ''Input only''),
    (''GPIO36'', Pin3 ''GPIO36 (VP)'' [dashed ''ADC1'' ''CH0''] ''Input only''),
    (''GPIO39'', Pin3 ''GPIO39 (VN)'' [dashed ''ADC1'' ''CH3''] ''Input only''),
    (''EN'', Pin ''EN (Enable)'' [''Reset''] ''Input'' ''Active high to enable chip''),
    (''VIN'', Pin ''VIN'' [''Power''] ''Power'' ''Typically 5V input''),
    (''3V3'', Pin ''3.3V'' [''Power''] ''Power'' ''3.3V output/input''),
    (''GND2'', Pin3 ''GND'' [''Ground''] ''Power''),
    (''GND3'', Pin3 ''GND'' [''Ground''] ''Power''),
    (''GND1'', Pin3 ''GND'' [''Ground''] ''Power'') ]"

definition initialize_pins :: "(string, pin) dict" where
  "initialize_pins = dict_display pin_items"

text \<open>The class \<^verbatim>\<open>ESP32PinData\<close> and its \<^verbatim>\<open>__init__\<close>.\<close>

record esp32_pin_data =
  pins :: "(string, pin) dict"
  i2c_pins :: "string list"
  adc_pins :: "string list"
  spi_pins :: "string list"
  pwm_pins :: "string list"
  power_pins :: "string list"
  input_only_pins :: "string list"
  in_out_pins :: "string list"

definition pins_of_type :: "(string, pin) dict \<Rightarrow> string \<Rightarrow> string list" where
  "pins_of_type d t = map fst (filter (\<lambda>kv. pin_type (snd kv) = t) d)"

definition ESP32PinData :: esp32_pin_data where
  "ESP32PinData =
    \<lparr> pins = initialize_pins,
      i2c_pins = [''GPIO21'', ''GPIO22''],
      adc_pins = [''GPIO32'', ''GPIO33'', ''GPIO34'', ''GPIO35'', ''GPIO36'', ''GPIO39'',
                  ''GPIO25'', ''GPIO26'', ''GPIO27'', ''GPIO12'', ''GPIO13'', ''GPIO14'',
                  ''GPIO15''],
      spi_pins = [''GPIO18'', ''GPIO19'', ''GPIO23'', ''GPIO5'', ''GPIO12'', ''GPIO13'',
                  ''GPIO14'', ''GPIO15''],
      pwm_pins = [''GPIO0'', ''GPIO1'', ''GPIO2'', ''GPIO3'', ''GPIO4'', ''GPIO5'', ''GPIO12'',
                  ''GPIO13'', ''GPIO14'', ''GPIO15'', ''GPIO16'', ''GPIO17'', ''GPIO18'',
                  ''GPIO19'', ''GPIO21'', ''GPIO22'', ''GPIO23'', ''GPIO25'', ''GPIO26'',
                  ''GPIO27'', ''GPIO32'', ''GPIO33''],
      power_pins = [''3V3'', ''VIN'', ''GND1'', ''GND2'', ''GND3''],
      input_only_pins = pins_of_type initialize_pins ''Input only'',
      in_out_pins = pins_of_type initialize_pins ''Input/Output'' \<rparr>"

definition get_pin_category :: "esp32_pin_data \<Rightarrow> string \<Rightarrow> string" where
  "get_pin_category d pin_id =
    (if pin_id \<in> set (i2c_pins d) then ''i2c''
     else if pin_id \<in> set (adc_pins d) then ''adc''
     else if pin_id \<in> set (spi_pins d) then ''spi''
     else if pin_id \<in> set (pwm_pins d) then ''pwm''
     else if pin_id \<in> set (power_pins d) then ''power''
     else ''default'')"

section \<open>Layout (layout\_config.py) and pin buttons (pin\_button.py)\<close>

text \<open>
  The class constants of \<^verbatim>\<open>LayoutConfig\<close> that the pin positions depend on.
  \<^verbatim>\<open>IMAGE_ASPECT_RATIO = 214 / 105\<close> is a float; \<^verbatim>\<open>int(300 * IMAGE_ASPECT_RATIO)\<close>
  truncates 611.43 to 611, which is the integer quotient written here. The halves
  taken by \<^verbatim>\<open>get_image_position\<close> are of non-negative numbers, where \<^verbatim>\<open>int(a / 2)\<close>
  is \<open>a div 2\<close>.
\<close>

definition WINDOW_WIDTH :: int where "WINDOW_WIDTH = 1500"
definition WINDOW_HEIGHT :: int where "WINDOW_HEIGHT = 800"
definition IMAGE_WIDTH :: int where "IMAGE_WIDTH = 300"
definition PIN_BUTTON_WIDTH :: int where "PIN_BUTTON_WIDTH = 36"
definition PIN_BUTTON_HEIGHT :: int where "PIN_BUTTON_HEIGHT = 20"
definition PIN_VERTICAL_STEP :: int where "PIN_VERTICAL_STEP = 27"

definition get_image_dimensions :: "int \<times> int" where
  "get_image_dimensions = (IMAGE_WIDTH, (IMAGE_WIDTH * 214) div 105)"

definition get_image_position :: "int \<times> int \<times> int \<times> int" where
  "get_image_position =
    (let width = fst get_image_dimensions; height = snd get_image_dimensions
     in ((WINDOW_WIDTH - width) div 2, (WINDOW_WIDTH + width) div 2,
         (WINDOW_HEIGHT - height) div 2, (WINDOW_HEIGHT + height) div 2))"

text \<open>The items of the dict display returned by \<^verbatim>\<open>_get_pin_positions\<close>.\<close>

definition pin_position_items :: "(string \<times> (int \<times> int \<times> int \<times> int)) list" where
  "pin_position_items =
    (let img_start = fst get_image_position;
         img_end = fst (snd get_image_position);
         img_bottom = snd (snd (snd get_image_position));
         pin_right = img_end - 35;
         pin_left = img_start;
         step = PIN_VERTICAL_STEP;
         gpio0_y = img_bottom - 182;
         w = PIN_BUTTON_WIDTH;
         h = PIN_BUTTON_HEIGHT
     in [ (''GPIO0'', (pin_right, gpio0_y, w, h)),
          (''GPIO1'', (pin_right, gpio0_y - step * 10 - 4, w, h)),
          (''GPIO2'', (pin_right, gpio0_y + step + 1, w, h)),
          (''GPIO3'', (pin_right, gpio0_y - step * 9 - 3, w, h)),
          (''GPIO4'', (pin_right, gpio0_y - step, w, h)),
          (''GPIO5'', (pin_right, gpio0_y - step * 4 - 1, w, h)),
          (''GPIO6'', (pin_right, gpio0_y + step * 5 + 2, w, h)),
          (''GPIO7'', (pin_right, gpio0_y + step * 4 + 2, w, h)),
          (''GPIO8'', (pin_right, gpio0_y + step * 3 + 2, w, h)),
          (''GPIO9'', (pin_left, gpio0_y + step * 2 + 1, w, h)),
          (''GPIO10'', (pin_left, gpio0_y + step * 3 + 2, w, h)),
          (''GPIO11'', (pin_left, gpio0_y + step * 4 + 2, w, h)),
          (''GPIO12'', (pin_left, gpio0_y - step, w, h)),
          (''GPIO13'', (pin_left, gpio0_y + step + 1, w, h)),
          (''GPIO14'', (pin_left, gpio0_y - step * 2, w, h)),
          (''GPIO15'', (pin_right, gpio0_y + step * 2 + 1, w, h)),
          (''GPIO16'', (pin_right, gpio0_y - step * 2, w, h)),
          (''GPIO17'', (pin_right, gpio0_y - step * 3 - 1, w, h)),
          (''GPIO18'', (pin_right, gpio0_y - step * 5 - 2, w, h)),
          (''GPIO19'', (pin_right, gpio0_y - step * 6 - 2, w, h)),
          (''GPIO21'', (pin_right, gpio0_y - step * 8 - 3, w, h)),
          (''GPIO22'', (pin_right, gpio0_y - step * 11 - 4, w, h)),
          (''GPIO23'', (pin_right, gpio0_y - step * 12 - 4, w, h)),
          (''GPIO25'', (pin_left, gpio0_y - step * 5 - 2, w, h)),
          (''GPIO26'', (pin_left, gpio0_y - step * 4 - 1, w, h)),
          (''GPIO27'', (pin_left, gpio0_y - step * 3 - 1, w, h)),
          (''GPIO32'', (pin_left, gpio0_y - step * 7 - 2, w, h)),
          (''GPIO33'', (pin_left, gpio0_y - step * 6 - 2, w, h)),
          (''GPIO34'', (pin_left, gpio0_y - step * 9 - 3, w, h)),
          (''GPIO35'', (pin_left, gpio0_y - step * 8 - 3, w, h)),
          (''GPIO36'', (pin_left, gpio0_y - step * 11 - 4, w, h)),
          (''GPIO39'', (pin_left, gpio0_y - step * 10 - 4, w, h)),
          (''EN'', (pin_left, gpio0_y - step * 12 - 4, w, h)),
          (''VIN'', (pin_left, gpio0_y + step * 5 + 2, w, h)),
          (''GND1'', (pin_right, gpio0_y - step * 7 - 2, w, h)),
          (''GND2'', (pin_right, gpio0_y - step * 13 - 5, w, h)),
          (''GND3'', (pin_left, gpio0_y, w, h)),
          (''3V3'', (pin_left, gpio0_y - step * 13 - 5, w, h)) ])"

definition get_pin_positions :: "(string, int \<times> int \<times> int \<times> int) dict" where
  "get_pin_positions = dict_display pin_position_items"

text \<open>
  \<^verbatim>\<open>PinButton.HOVER_COLORS\<close>. A colour \<^verbatim>\<open>'rgba(R, G, B, A)'\<close> is kept as its four
  components, which is what \<^verbatim>\<open>_highlight_button\<close> parses out of the text again.
\<close>

type_synonym rgba = "nat \<times> nat \<times> nat \<times> nat"

definition HOVER_COLORS :: "(string, rgba) dict" where
  "HOVER_COLORS =
    [ (''i2c'', (0, 128, 255, 80)),
      (''adc'', (0, 200, 0, 80)),
      (''spi'', (192, 192, 192, 80)),
      (''pwm'', (255, 165, 0, 80)),
      (''power'', (150, 98, 254, 80)),
      (''input_only'', (247, 0, 255, 80)),
      (''in_out'', (0, 195, 255, 80)),
      (''default'', (255, 0, 0, 80)) ]"

text \<open>\<^verbatim>\<open>HOVER_COLORS.get(category, HOVER_COLORS['default'])\<close>.\<close>

definition hover_color_of :: "string \<Rightarrow> rgba" where
  "hover_color_of category =
    (case dict_get HOVER_COLORS category of Some c \<Rightarrow> c | None \<Rightarrow> (255, 0, 0, 80))"

text \<open>
  A style sheet is one of the two templates of the source with the hover colour filled
  in: the one \<^verbatim>\<open>PinButton._apply_style\<close> sets, and the one \<^verbatim>\<open>_highlight_button\<close> sets.
\<close>

datatype style_sheet = PinStyle rgba | HighlightStyle rgba

text \<open>
  A \<^verbatim>\<open>PinButton\<close>: its pin, its geometry, its style sheet, and the attribute
  \<^verbatim>\<open>original_style\<close> that \<^verbatim>\<open>_highlight_button\<close> adds (\<open>None\<close> while
  \<^verbatim>\<open>hasattr(button, 'original_style')\<close> is false).
\<close>

record pin_button =
  btn_pin_id :: string
  btn_x :: int
  btn_y :: int
  btn_width :: int
  btn_height :: int
  styleSheet :: style_sheet
  original_style :: "style_sheet option"

definition PinButton :: "string \<Rightarrow> int \<Rightarrow> int \<Rightarrow> int \<Rightarrow> int \<Rightarrow> string \<Rightarrow> pin_button" where
  "PinButton pin_id x y w h pin_category =
    \<lparr> btn_pin_id = pin_id, btn_x = x, btn_y = y, btn_width = w, btn_height = h,
      styleSheet = PinStyle (hover_color_of pin_category), original_style = None \<rparr>"

section \<open>The application state (Pinout\_GUI.py)\<close>

text \<open>
  An entry of \<^verbatim>\<open>pin_history\<close> is the tuple \<^verbatim>\<open>('pin', pin_id)\<close> or
  \<^verbatim>\<open>('category', (category_key, category_name))\<close>; no other tag is ever stored.
\<close>

datatype view_entry = PinView string | CategoryView string string

datatype arrow_dir = PointsRight | PointsLeft

text \<open>An arrow \<^verbatim>\<open>QLabel\<close>: its text, its geometry and its colour.\<close>

record arrow_label =
  arrow_text :: arrow_dir
  arrow_geometry :: "int \<times> int \<times> int \<times> int"
  arrow_color :: "nat \<times> nat \<times> nat"

text \<open>The widgets the source puts into \<^verbatim>\<open>info_layout\<close>.\<close>

datatype widget =
    Placeholder
  | NameLabel string
  | SectionHeader string
  | OvalTagLabel string string
  | NoteLabel string
  | CategoryHeader string nat
  | PinTagButton string string string
  | Stretch

text \<open>
  The fields of \<^verbatim>\<open>PinoutApp\<close> that the handlers read and write. The buttons are
  objects shared between \<^verbatim>\<open>pin_buttons\<close> and \<^verbatim>\<open>highlighted_buttons\<close>: the dict
  \<open>pin_buttons\<close> is the store, and \<open>highlighted_buttons\<close> holds references into it,
  the keys. \<open>back_enabled\<close> and \<open>forward_enabled\<close> are the enabled states of
  \<^verbatim>\<open>back_button\<close> and \<^verbatim>\<open>forward_button\<close>; \<open>content_width\<close> is what
  \<^verbatim>\<open>content_widget.width()\<close> returns, a value the window system decides.
\<close>

record app_state =
  pin_data :: esp32_pin_data
  pin_buttons :: "(string, pin_button) dict"
  highlighted_buttons :: "string list"
  arrow_labels :: "arrow_label list"
  pin_history :: "view_entry list"
  history_index :: int
  back_enabled :: bool
  forward_enabled :: bool
  info_layout :: "widget list"
  content_width :: int

datatype error = IndexError

text \<open>\<^verbatim>\<open>xs[:k]\<close> and \<^verbatim>\<open>xs[i]\<close>, where a negative number counts from the end.\<close>

definition slice_to :: "'a list \<Rightarrow> int \<Rightarrow> 'a list" where
  "slice_to xs k = (if 0 \<le> k then take (nat k) xs else take (nat (int (length xs) + k)) xs)"

definition index_at :: "'a list \<Rightarrow> int \<Rightarrow> 'a option" where
  "index_at xs i =
    (let n = int (length xs); j = (if i < 0 then n + i else i)
     in if 0 \<le> j \<and> j < n then Some (xs ! nat j) else None)"

text \<open>\<^verbatim>\<open>int(a / 2)\<close> rounds towards zero.\<close>

definition int_half :: "int \<Rightarrow> int" where
  "int_half a = (if 0 \<le> a then a div 2 else - ((- a) div 2))"

definition create_pin_buttons :: "esp32_pin_data \<Rightarrow> (string, pin_button) dict" where
  "create_pin_buttons d =
    foldl (\<lambda>bs kv. case kv of (pin_id, x, y, w, h) \<Rightarrow>
             AList.update pin_id (PinButton pin_id x y w h (get_pin_category d pin_id)) bs)
          [] get_pin_positions"

text \<open>\<^verbatim>\<open>PinoutApp.__init__\<close>, for a content width \<open>cw\<close>.\<close>

definition PinoutApp :: "int \<Rightarrow> app_state" where
  "PinoutApp cw =
    \<lparr> pin_data = ESP32PinData,
      pin_buttons = create_pin_buttons ESP32PinData,
      highlighted_buttons = [],
      arrow_labels = [],
      pin_history = [],
      history_index = - 1,
      back_enabled = False,
      forward_enabled = False,
      info_layout = [Placeholder],
      content_width = cw \<rparr>"

definition update_navigation_buttons :: "app_state \<Rightarrow> app_state" where
  "update_navigation_buttons s =
    s\<lparr> back_enabled := (history_index s > 0),
       forward_enabled := (history_index s < int (length (pin_history s)) - 1) \<rparr>"

text \<open>
  \<^verbatim>\<open>_clear_highlights\<close>: every highlighted button that has an \<^verbatim>\<open>original_style\<close>
  gets it back; both lists are emptied (the arrows are deleted).
\<close>

definition restore_style :: "pin_button \<Rightarrow> pin_button" where
  "restore_style btn =
    (case original_style btn of Some st \<Rightarrow> btn\<lparr>styleSheet := st\<rparr> | None \<Rightarrow> btn)"

definition clear_highlights :: "app_state \<Rightarrow> app_state" where
  "clear_highlights s =
    s\<lparr> pin_buttons := foldl (\<lambda>bs k. AList.map_entry k restore_style bs)
                             (pin_buttons s) (highlighted_buttons s),
       highlighted_buttons := [],
       arrow_labels := [] \<rparr>"

text \<open>
  \<^verbatim>\<open>_highlight_button\<close>, for the button stored under \<open>k\<close>: the style sheet is saved
  once and replaced, and an arrow is added beside the button.
\<close>

definition highlighted :: "esp32_pin_data \<Rightarrow> pin_button \<Rightarrow> pin_button" where
  "highlighted d btn =
    (let b1 = (if original_style btn = None then btn\<lparr>original_style := Some (styleSheet btn)\<rparr>
               else btn)
     in b1\<lparr>styleSheet := HighlightStyle (hover_color_of (get_pin_category d (btn_pin_id btn)))\<rparr>)"

definition arrow_for :: "esp32_pin_data \<Rightarrow> int \<Rightarrow> pin_button \<Rightarrow> arrow_label" where
  "arrow_for d cw btn =
    (let left = (2 * btn_x btn < cw);
         arrow_x = (if left then btn_x btn - (int_half (btn_width btn) + 5)
                    else btn_x btn + btn_width btn + 5);
         c = hover_color_of (get_pin_category d (btn_pin_id btn))
     in \<lparr> arrow_text = (if left then PointsRight else PointsLeft),
          arrow_geometry = (arrow_x, btn_y btn + 2, 25, btn_height btn - 4),
          arrow_color = (fst c, fst (snd c), fst (snd (snd c))) \<rparr>)"

definition highlight_button :: "app_state \<Rightarrow> string \<Rightarrow> app_state" where
  "highlight_button s k =
    (case dict_get (pin_buttons s) k of
       None \<Rightarrow> s
     | Some btn \<Rightarrow>
         s\<lparr> pin_buttons := AList.map_entry k (highlighted (pin_data s)) (pin_buttons s),
            arrow_labels := arrow_labels s @ [arrow_for (pin_data s) (content_width s) btn] \<rparr>)"

definition colors :: "string list" where
  "colors = [''#3498db'', ''#9b59b6'', ''#e74c3c'', ''#f39c12'', ''#1abc9c'', ''#34495e'']"

text \<open>The widgets \<^verbatim>\<open>show_pin_info\<close> builds for a pin that was found.\<close>

definition pin_widgets :: "pin \<Rightarrow> widget list" where
  "pin_widgets p =
    [NameLabel (name p), SectionHeader ''Type:'', OvalTagLabel (pin_type p) ''#16a085'',
     SectionHeader ''Functions:'']
    @ map (\<lambda>ifn. OvalTagLabel (snd ifn) (colors ! (fst ifn mod length colors)))
          (enumerate 0 (pin_functions p))
    @ (if pin_note p \<noteq> [] then [NoteLabel (pin_note p)] else [])
    @ [Stretch]"

text \<open>\<^verbatim>\<open>_display_category_info\<close>.\<close>

definition display_category_info :: "app_state \<Rightarrow> string \<Rightarrow> string list \<Rightarrow> app_state" where
  "display_category_info s category_name pns =
    s\<lparr> info_layout :=
         [CategoryHeader category_name (length pns), SectionHeader ''Pins in this category:'']
         @ concat (map (\<lambda>ip. case dict_get (pins (pin_data s)) (snd ip) of
                                None \<Rightarrow> []
                              | Some pin_info \<Rightarrow>
                                  [PinTagButton (snd ip) (name pin_info)
                                     (colors ! (fst ip mod length colors))])
                       (enumerate 0 (sort pns)))
         @ [Stretch] \<rparr>"

text \<open>
  The block \<^verbatim>\<open># Get pins for this category\<close> of \<^verbatim>\<open>show_category_pins\<close>: the value
  of the local variable \<^verbatim>\<open>pins\<close>.
\<close>

definition category_pins :: "app_state \<Rightarrow> string \<Rightarrow> string list" where
  "category_pins s category_key =
    (let d = pin_data s in
     if category_key = ''i2c'' then i2c_pins d
     else if category_key = ''adc'' then adc_pins d
     else if category_key = ''spi'' then spi_pins d
     else if category_key = ''pwm'' then pwm_pins d
     else if category_key = ''power'' then power_pins d
     else if category_key = ''Input only'' then input_only_pins d
     else if category_key = ''Input/Output'' then in_out_pins d
     else
       (let all_categorized = set (i2c_pins d @ adc_pins d @ spi_pins d @ pwm_pins d
                                   @ power_pins d @ input_only_pins d @ in_out_pins d)
        in filter (\<lambda>pin_id. pin_id \<notin> all_categorized \<and> startswith pin_id ''GPIO'')
                  (dict_keys (pin_buttons s))))"

text \<open>The loop \<^verbatim>\<open># Highlight pins on diagram\<close> of \<^verbatim>\<open>show_category_pins\<close>.\<close>

definition highlight_pins :: "app_state \<Rightarrow> string list \<Rightarrow> app_state" where
  "highlight_pins s pns =
    foldl (\<lambda>st pin_id.
             if dict_contains (pin_buttons st) pin_id
             then (let st' = highlight_button st pin_id
                   in st'\<lparr>highlighted_buttons := highlighted_buttons st' @ [pin_id]\<rparr>)
             else st)
          s pns"

text \<open>
  \<^verbatim>\<open>show_pin_info\<close> and \<^verbatim>\<open>show_category_pins\<close>. A handler returns \<open>Inr\<close> the new
  state, or \<open>Inl\<close> the exception it raised.
\<close>

definition show_pin_info :: "app_state \<Rightarrow> string \<Rightarrow> bool \<Rightarrow> error + app_state" where
  "show_pin_info s pin_id from_navigation =
    (let s1 = clear_highlights s;
         s2 = (if \<not> from_navigation then
                 (let h = (if history_index s1 < int (length (pin_history s1)) - 1
                           then slice_to (pin_history s1) (history_index s1 + 1)
                           else pin_history s1);
                      h' = h @ [PinView pin_id]
                  in update_navigation_buttons
                       (s1\<lparr>pin_history := h', history_index := int (length h') - 1\<rparr>))
               else s1)
     in case dict_get (pins (pin_data s2)) pin_id of
          Some p \<Rightarrow> Inr (s2\<lparr>info_layout := pin_widgets p\<rparr>)
        | None \<Rightarrow> Inr s2)"

definition show_category_pins ::
  "app_state \<Rightarrow> string \<Rightarrow> string \<Rightarrow> bool \<Rightarrow> error + app_state" where
  "show_category_pins s category_key category_name from_navigation =
    (let s1 = clear_highlights s;
         s2 = (if \<not> from_navigation then
                 (let h = (if history_index s1 < int (length (pin_history s1)) - 1
                           then slice_to (pin_history s1) (history_index s1 + 1)
                           else pin_history s1);
                      h' = h @ [CategoryView category_key category_name]
                  in update_navigation_buttons
                       (s1\<lparr>pin_history := h', history_index := int (length h') - 1\<rparr>))
               else s1);
         pns = category_pins s2 category_key;
         s3 = highlight_pins s2 pns
     in Inr (display_category_info s3 category_name pns))"

text \<open>
  The dispatch on the entry that \<^verbatim>\<open>_navigate_back\<close> and \<^verbatim>\<open>_navigate_forward\<close>
  both make, with \<^verbatim>\<open>from_navigation=True\<close>. The subscript
  \<^verbatim>\<open>self.pin_history[self.history_index]\<close> raises \<^verbatim>\<open>IndexError\<close> out of range; the
  model then returns the exception and drops the state.
\<close>

definition replay :: "app_state \<Rightarrow> view_entry \<Rightarrow> error + app_state" where
  "replay s e =
    (case e of
       PinView data \<Rightarrow> show_pin_info s data True
     | CategoryView category_key category_name \<Rightarrow>
         show_category_pins s category_key category_name True)"

definition navigate_back :: "app_state \<Rightarrow> error + app_state" where
  "navigate_back s =
    (if history_index s > 0 then
       (let s1 = s\<lparr>history_index := history_index s - 1\<rparr>
        in case index_at (pin_history s1) (history_index s1) of
             None \<Rightarrow> Inl IndexError
           | Some e \<Rightarrow>
               (case replay s1 e of
                  Inl err \<Rightarrow> Inl err
                | Inr s2 \<Rightarrow> Inr (update_navigation_buttons s2)))
     else Inr s)"

definition navigate_forward :: "app_state \<Rightarrow> error + app_state" where
  "navigate_forward s =
    (if history_index s < int (length (pin_history s)) - 1 then
       (let s1 = s\<lparr>history_index := history_index s + 1\<rparr>
        in case index_at (pin_history s1) (history_index s1) of
             None \<Rightarrow> Inl IndexError
           | Some e \<Rightarrow>
               (case replay s1 e of
                  Inl err \<Rightarrow> Inl err
                | Inr s2 \<Rightarrow> Inr (update_navigation_buttons s2)))
     else Inr s)"

text \<open>
  The events wired to the handlers: a click on a pin button or a pin tag calls
  \<^verbatim>\<open>show_pin_info(p)\<close>, a click on a legend button calls
  \<^verbatim>\<open>show_category_pins(key, name)\<close>, the Back and Forward buttons (and Ctrl+Z,
  Ctrl+Shift+Z) call the two navigation handlers. An exception ends the run.
\<close>

datatype event =
    PinClicked string
  | CategoryClicked string string
  | BackRequested
  | ForwardRequested

fun handle :: "app_state \<Rightarrow> event \<Rightarrow> error + app_state" where
  "handle s (PinClicked p) = show_pin_info s p False"
| "handle s (CategoryClicked k n) = show_category_pins s k n False"
| "handle s BackRequested = navigate_back s"
| "handle s ForwardRequested = navigate_forward s"

fun run :: "app_state \<Rightarrow> event list \<Rightarrow> error + app_state" where
  "run s [] = Inr s"
| "run s (e # es) = (case handle s e of Inl err \<Rightarrow> Inl err | Inr s' \<Rightarrow> run s' es)"

text \<open>
  The invariant of the history: the index is \<open>-1\<close> or a position of the list, and the
  two buttons are enabled as \<^verbatim>\<open>_update_navigation_buttons\<close> would set them.
\<close>

definition nav_inv :: "app_state \<Rightarrow> bool" where
  "nav_inv s =
    (- 1 \<le> history_index s \<and> history_index s < int (length (pin_history s)) \<and>
     back_enabled s = (history_index s > 0) \<and>
     forward_enabled s = (history_index s < int (length (pin_history s)) - 1))"

text \<open>
  Recording a view by direct interaction: what the click handlers of the pin buttons and
  of the legend buttons call, with \<^verbatim>\<open>from_navigation\<close> left at its default
  \<^verbatim>\<open>False\<close>.
\<close>

definition record_view :: "app_state \<Rightarrow> view_entry \<Rightarrow> error + app_state" where
  "record_view s e =
    (case e of
       PinView p \<Rightarrow> show_pin_info s p False
     | CategoryView k n \<Rightarrow> show_category_pins s k n False)"

text \<open>
  What the buttons show: the keys of the buttons whose style sheet is the one
  \<^verbatim>\<open>_highlight_button\<close> sets.
\<close>

definition is_highlight :: "style_sheet \<Rightarrow> bool" where
  "is_highlight st = (case st of HighlightStyle c \<Rightarrow> True | PinStyle c \<Rightarrow> False)"

definition styled_buttons :: "app_state \<Rightarrow> string list" where
  "styled_buttons s = map fst (filter (\<lambda>kb. is_highlight (styleSheet (snd kb))) (pin_buttons s))"

text \<open>
  The invariant of the highlights: the keys of the button store are distinct (it is a
  dict), \<open>highlighted_buttons\<close> refers into the store, a button carries the highlight style
  exactly when it is in \<open>highlighted_buttons\<close>, and then it has an \<^verbatim>\<open>original_style\<close>,
  which is never a highlight style.
\<close>

definition hl_inv :: "app_state \<Rightarrow> bool" where
  "hl_inv s =
    (distinct (dict_keys (pin_buttons s)) \<and>
     set (highlighted_buttons s) \<subseteq> set (dict_keys (pin_buttons s)) \<and>
     (\<forall>k b. dict_get (pin_buttons s) k = Some b \<longrightarrow>
        is_highlight (styleSheet b) = (k \<in> set (highlighted_buttons s)) \<and>
        (is_highlight (styleSheet b) \<longrightarrow> original_style b \<noteq> None) \<and>
        (\<forall>st. original_style b = Some st \<longrightarrow> \<not> is_highlight st)))"

section \<open>Auxiliary facts\<close>

subsection \<open>Dictionaries\<close>

lemma update_fresh: "k \<notin> fst ` set al \<Longrightarrow> AList.update k v al = al @ [(k, v)]"
  by (induction al) auto

lemma foldl_update_fresh:
  "distinct (map fst acc @ map fst items) \<Longrightarrow>
   foldl (\<lambda>d kv. AList.update (fst kv) (g kv) d) acc items
     = acc @ map (\<lambda>kv. (fst kv, g kv)) items"
proof (induction items arbitrary: acc)
  case Nil
  then show ?case by simp
next
  case (Cons kv items)
  from Cons.prems have fresh: "fst kv \<notin> fst ` set acc" by auto
  have step: "AList.update (fst kv) (g kv) acc = acc @ [(fst kv, g kv)]"
    using fresh by (rule update_fresh)
  from Cons.prems have "distinct (map fst (acc @ [(fst kv, g kv)]) @ map fst items)" by auto
  from Cons.IH [OF this] show ?case by (simp add: step)
qed

lemma dict_display_distinct: "distinct (map fst items) \<Longrightarrow> dict_display items = items"
  unfolding dict_display_def using foldl_update_fresh [of "[]" items snd] by simp

lemma keys_map_entry: "map fst (AList.map_entry k f al) = map fst al"
  by (induction al) auto

lemma keys_foldl_map_entry:
  "map fst (foldl (\<lambda>bs k. AList.map_entry k f bs) al ks) = map fst al"
  by (induction ks arbitrary: al) (auto simp: keys_map_entry)

subsection \<open>Frame lemmas\<close>

lemma clear_highlights_fields:
  "pin_history (clear_highlights s) = pin_history s"
  "history_index (clear_highlights s) = history_index s"
  "back_enabled (clear_highlights s) = back_enabled s"
  "forward_enabled (clear_highlights s) = forward_enabled s"
  "pin_data (clear_highlights s) = pin_data s"
  "info_layout (clear_highlights s) = info_layout s"
  "content_width (clear_highlights s) = content_width s"
  "highlighted_buttons (clear_highlights s) = []"
  "arrow_labels (clear_highlights s) = []"
  "dict_keys (pin_buttons (clear_highlights s)) = dict_keys (pin_buttons s)"
  by (simp_all add: clear_highlights_def dict_keys_def keys_foldl_map_entry)

lemma highlight_button_fields:
  "pin_history (highlight_button s k) = pin_history s"
  "history_index (highlight_button s k) = history_index s"
  "back_enabled (highlight_button s k) = back_enabled s"
  "forward_enabled (highlight_button s k) = forward_enabled s"
  "pin_data (highlight_button s k) = pin_data s"
  "info_layout (highlight_button s k) = info_layout s"
  "content_width (highlight_button s k) = content_width s"
  "highlighted_buttons (highlight_button s k) = highlighted_buttons s"
  "dict_keys (pin_buttons (highlight_button s k)) = dict_keys (pin_buttons s)"
  by (simp_all add: highlight_button_def dict_keys_def keys_map_entry split: option.split)

lemma dict_contains_get: "dict_contains d k \<Longrightarrow> \<exists>v. dict_get d k = Some v"
  unfolding dict_contains_def dict_get_def
  by (cases "map_of d k") (simp_all add: map_of_eq_None_iff)

lemma dict_contains_cong:
  "dict_keys d = dict_keys d' \<Longrightarrow> dict_contains d = dict_contains d'"
  by (auto simp: dict_contains_def dict_keys_def fun_eq_iff)

lemma highlight_button_contains:
  "dict_contains (pin_buttons (highlight_button s k)) = dict_contains (pin_buttons s)"
  by (rule dict_contains_cong) (rule highlight_button_fields)

lemma highlight_button_arrows:
  "dict_contains (pin_buttons s) k \<Longrightarrow>
   length (arrow_labels (highlight_button s k)) = Suc (length (arrow_labels s))"
  using dict_contains_get [of "pin_buttons s" k] by (auto simp: highlight_button_def)

lemma highlight_pins_Nil: "highlight_pins s [] = s"
  by (simp add: highlight_pins_def)

lemma highlight_pins_Cons:
  "highlight_pins s (p # pns) =
     (if dict_contains (pin_buttons s) p
      then highlight_pins
             ((highlight_button s p)\<lparr>highlighted_buttons :=
                 highlighted_buttons (highlight_button s p) @ [p]\<rparr>) pns
      else highlight_pins s pns)"
  by (simp add: highlight_pins_def Let_def)

lemma highlight_pins_fields:
  "pin_history (highlight_pins s pns) = pin_history s \<and>
   history_index (highlight_pins s pns) = history_index s \<and>
   back_enabled (highlight_pins s pns) = back_enabled s \<and>
   forward_enabled (highlight_pins s pns) = forward_enabled s \<and>
   pin_data (highlight_pins s pns) = pin_data s \<and>
   info_layout (highlight_pins s pns) = info_layout s \<and>
   content_width (highlight_pins s pns) = content_width s \<and>
   dict_keys (pin_buttons (highlight_pins s pns)) = dict_keys (pin_buttons s) \<and>
   highlighted_buttons (highlight_pins s pns)
     = highlighted_buttons s @ filter (dict_contains (pin_buttons s)) pns \<and>
   length (arrow_labels (highlight_pins s pns))
     = length (arrow_labels s) + length (filter (dict_contains (pin_buttons s)) pns)"
proof (induction pns arbitrary: s)
  case Nil
  then show ?case by (simp add: highlight_pins_Nil)
next
  case (Cons p pns)
  show ?case
  proof (cases "dict_contains (pin_buttons s) p")
    case True
    let ?s1 = "(highlight_button s p)\<lparr>highlighted_buttons :=
                  highlighted_buttons (highlight_button s p) @ [p]\<rparr>"
    have unfold: "highlight_pins s (p # pns) = highlight_pins ?s1 pns"
      using True by (simp add: highlight_pins_Cons)
    show ?thesis
      unfolding unfold using Cons.IH [of ?s1] True
      by (simp add: highlight_button_fields highlight_button_contains highlight_button_arrows)
  next
    case False
    then have unfold: "highlight_pins s (p # pns) = highlight_pins s pns"
      by (simp add: highlight_pins_Cons)
    show ?thesis unfolding unfold using Cons.IH [of s] False by simp
  qed
qed

lemma display_category_info_fields:
  "pin_history (display_category_info s n pns) = pin_history s"
  "history_index (display_category_info s n pns) = history_index s"
  "back_enabled (display_category_info s n pns) = back_enabled s"
  "forward_enabled (display_category_info s n pns) = forward_enabled s"
  "pin_data (display_category_info s n pns) = pin_data s"
  "highlighted_buttons (display_category_info s n pns) = highlighted_buttons s"
  "arrow_labels (display_category_info s n pns) = arrow_labels s"
  "pin_buttons (display_category_info s n pns) = pin_buttons s"
  by (simp_all add: display_category_info_def)

subsection \<open>The handlers\<close>

lemma slice_to_take: "- 1 \<le> i \<Longrightarrow> slice_to xs (i + 1) = take (nat (i + 1)) xs"
  by (simp add: slice_to_def)

lemma show_pin_info_direct:
  "\<exists>s'. show_pin_info s p False = Inr s' \<and>
     pin_history s' =
       (if history_index s < int (length (pin_history s)) - 1
        then slice_to (pin_history s) (history_index s + 1) else pin_history s) @ [PinView p] \<and>
     history_index s' = int (length (pin_history s')) - 1 \<and>
     back_enabled s' = (history_index s' > 0) \<and>
     forward_enabled s' = False \<and>
     highlighted_buttons s' = [] \<and> arrow_labels s' = [] \<and>
     pin_data s' = pin_data s \<and>
     dict_keys (pin_buttons s') = dict_keys (pin_buttons s) \<and>
     info_layout s' = (case dict_get (pins (pin_data s)) p of
                         Some pn \<Rightarrow> pin_widgets pn | None \<Rightarrow> info_layout s)"
  by (simp add: show_pin_info_def Let_def update_navigation_buttons_def clear_highlights_fields
      split: option.split)

lemma show_pin_info_replay:
  "\<exists>s'. show_pin_info s p True = Inr s' \<and>
     pin_history s' = pin_history s \<and>
     history_index s' = history_index s \<and>
     back_enabled s' = back_enabled s \<and>
     forward_enabled s' = forward_enabled s \<and>
     highlighted_buttons s' = [] \<and> arrow_labels s' = [] \<and>
     pin_data s' = pin_data s \<and>
     dict_keys (pin_buttons s') = dict_keys (pin_buttons s) \<and>
     info_layout s' = (case dict_get (pins (pin_data s)) p of
                         Some pn \<Rightarrow> pin_widgets pn | None \<Rightarrow> info_layout s)"
  by (simp add: show_pin_info_def Let_def clear_highlights_fields split: option.split)

lemma category_pins_cong:
  "pin_data s' = pin_data s \<Longrightarrow> dict_keys (pin_buttons s') = dict_keys (pin_buttons s) \<Longrightarrow>
   category_pins s' k = category_pins s k"
  by (simp add: category_pins_def Let_def)

lemma clear_highlights_contains:
  "dict_contains (pin_buttons (clear_highlights s)) = dict_contains (pin_buttons s)"
  by (rule dict_contains_cong) (rule clear_highlights_fields)

lemma show_category_pins_direct:
  "\<exists>s'. show_category_pins s k n False = Inr s' \<and>
     pin_history s' =
       (if history_index s < int (length (pin_history s)) - 1
        then slice_to (pin_history s) (history_index s + 1) else pin_history s)
       @ [CategoryView k n] \<and>
     history_index s' = int (length (pin_history s')) - 1 \<and>
     back_enabled s' = (history_index s' > 0) \<and>
     forward_enabled s' = False \<and>
     highlighted_buttons s' = filter (dict_contains (pin_buttons s)) (category_pins s k) \<and>
     length (arrow_labels s') = length (highlighted_buttons s') \<and>
     pin_data s' = pin_data s \<and>
     dict_keys (pin_buttons s') = dict_keys (pin_buttons s)"
proof -
  define h where "h = (if history_index s < int (length (pin_history s)) - 1
        then slice_to (pin_history s) (history_index s + 1) else pin_history s)
       @ [CategoryView k n]"
  define s2 where "s2 = update_navigation_buttons
               ((clear_highlights s)\<lparr>pin_history := h, history_index := int (length h) - 1\<rparr>)"
  have eq: "show_category_pins s k n False
     = Inr (display_category_info (highlight_pins s2 (category_pins s2 k)) n (category_pins s2 k))"
    by (simp add: show_category_pins_def Let_def clear_highlights_fields s2_def h_def)
  have s2: "pin_history s2 = h" "history_index s2 = int (length h) - 1"
    "back_enabled s2 = (int (length h) - 1 > 0)" "forward_enabled s2 = False"
    "highlighted_buttons s2 = []" "arrow_labels s2 = []" "pin_data s2 = pin_data s"
    "dict_keys (pin_buttons s2) = dict_keys (pin_buttons s)"
    by (simp_all add: s2_def update_navigation_buttons_def clear_highlights_fields)
  have cp: "category_pins s2 k = category_pins s k"
    by (rule category_pins_cong) (rule s2)+
  have ct: "dict_contains (pin_buttons s2) = dict_contains (pin_buttons s)"
    by (rule dict_contains_cong) (rule s2)
  show ?thesis
    unfolding eq cp h_def [symmetric]
    using highlight_pins_fields [of s2 "category_pins s k"]
    by (simp add: display_category_info_fields ct s2)
qed

lemma show_category_pins_replay:
  "\<exists>s'. show_category_pins s k n True = Inr s' \<and>
     pin_history s' = pin_history s \<and>
     history_index s' = history_index s \<and>
     back_enabled s' = back_enabled s \<and>
     forward_enabled s' = forward_enabled s \<and>
     highlighted_buttons s' = filter (dict_contains (pin_buttons s)) (category_pins s k) \<and>
     length (arrow_labels s') = length (highlighted_buttons s') \<and>
     pin_data s' = pin_data s \<and>
     dict_keys (pin_buttons s') = dict_keys (pin_buttons s)"
proof -
  let ?s2 = "clear_highlights s"
  have eq: "show_category_pins s k n True
     = Inr (display_category_info (highlight_pins ?s2 (category_pins ?s2 k)) n (category_pins ?s2 k))"
    by (simp add: show_category_pins_def Let_def)
  have cp: "category_pins ?s2 k = category_pins s k"
    by (rule category_pins_cong) (simp_all add: clear_highlights_fields)
  show ?thesis
    unfolding eq cp using highlight_pins_fields [of ?s2 "category_pins s k"]
    by (simp add: display_category_info_fields clear_highlights_contains clear_highlights_fields)
qed

lemma replay_frame:
  "\<exists>s'. replay s e = Inr s' \<and>
     pin_history s' = pin_history s \<and>
     history_index s' = history_index s \<and>
     back_enabled s' = back_enabled s \<and>
     forward_enabled s' = forward_enabled s \<and>
     pin_data s' = pin_data s \<and>
     dict_keys (pin_buttons s') = dict_keys (pin_buttons s)"
proof (cases e)
  case (PinView p)
  then show ?thesis using show_pin_info_replay [of s p] by (auto simp: replay_def)
next
  case (CategoryView k n)
  then show ?thesis using show_category_pins_replay [of s k n] by (auto simp: replay_def)
qed

subsection \<open>Navigation\<close>

lemma index_at_in_range:
  "0 \<le> i \<Longrightarrow> i < int (length xs) \<Longrightarrow> index_at xs i = Some (xs ! nat i)"
  by (simp add: index_at_def Let_def)

lemma navigate_back_step:
  assumes "0 < history_index s" "history_index s < int (length (pin_history s))"
  shows "\<exists>r. replay (s\<lparr>history_index := history_index s - 1\<rparr>)
                (pin_history s ! nat (history_index s - 1)) = Inr r \<and>
             navigate_back s = Inr (update_navigation_buttons r) \<and>
             pin_history r = pin_history s \<and> history_index r = history_index s - 1 \<and>
             pin_data r = pin_data s \<and> dict_keys (pin_buttons r) = dict_keys (pin_buttons s)"
proof -
  let ?s1 = "s\<lparr>history_index := history_index s - 1\<rparr>"
  let ?e = "pin_history s ! nat (history_index s - 1)"
  have ix: "index_at (pin_history ?s1) (history_index ?s1) = Some ?e"
    using assms by (simp add: index_at_in_range)
  obtain r where r: "replay ?s1 ?e = Inr r" "pin_history r = pin_history ?s1"
    "history_index r = history_index ?s1" "pin_data r = pin_data ?s1"
    "dict_keys (pin_buttons r) = dict_keys (pin_buttons ?s1)"
    using replay_frame [of ?s1 ?e] by blast
  have "navigate_back s = Inr (update_navigation_buttons r)"
    using assms(1) ix r(1) by (simp add: navigate_back_def Let_def)
  with r show ?thesis by simp
qed

lemma navigate_forward_step:
  assumes "- 1 \<le> history_index s" "history_index s < int (length (pin_history s)) - 1"
  shows "\<exists>r. replay (s\<lparr>history_index := history_index s + 1\<rparr>)
                (pin_history s ! nat (history_index s + 1)) = Inr r \<and>
             navigate_forward s = Inr (update_navigation_buttons r) \<and>
             pin_history r = pin_history s \<and> history_index r = history_index s + 1 \<and>
             pin_data r = pin_data s \<and> dict_keys (pin_buttons r) = dict_keys (pin_buttons s)"
proof -
  let ?s1 = "s\<lparr>history_index := history_index s + 1\<rparr>"
  let ?e = "pin_history s ! nat (history_index s + 1)"
  have ix: "index_at (pin_history ?s1) (history_index ?s1) = Some ?e"
    using assms by (simp add: index_at_in_range)
  obtain r where r: "replay ?s1 ?e = Inr r" "pin_history r = pin_history ?s1"
    "history_index r = history_index ?s1" "pin_data r = pin_data ?s1"
    "dict_keys (pin_buttons r) = dict_keys (pin_buttons ?s1)"
    using replay_frame [of ?s1 ?e] by blast
  have "navigate_forward s = Inr (update_navigation_buttons r)"
    using assms(2) ix r(1) by (simp add: navigate_forward_def Let_def)
  with r show ?thesis by simp
qed

lemma update_navigation_buttons_fields:
  "pin_history (update_navigation_buttons s) = pin_history s"
  "history_index (update_navigation_buttons s) = history_index s"
  "back_enabled (update_navigation_buttons s) = (history_index s > 0)"
  "forward_enabled (update_navigation_buttons s)
     = (history_index s < int (length (pin_history s)) - 1)"
  "pin_data (update_navigation_buttons s) = pin_data s"
  "pin_buttons (update_navigation_buttons s) = pin_buttons s"
  "highlighted_buttons (update_navigation_buttons s) = highlighted_buttons s"
  "arrow_labels (update_navigation_buttons s) = arrow_labels s"
  "info_layout (update_navigation_buttons s) = info_layout s"
  by (simp_all add: update_navigation_buttons_def)

lemma nav_inv_init: "nav_inv (PinoutApp cw)"
  by (simp add: nav_inv_def PinoutApp_def)

lemma length_slice_to:
  "- 1 \<le> i \<Longrightarrow> i < int (length xs) \<Longrightarrow> length (slice_to xs (i + 1)) = nat (i + 1)"
  by (simp add: slice_to_def)

lemma nav_inv_handle:
  assumes "nav_inv s"
  shows "\<exists>s'. handle s e = Inr s' \<and> nav_inv s'"
proof (cases e)
  case (PinClicked p)
  obtain s' where s': "show_pin_info s p False = Inr s'"
    "history_index s' = int (length (pin_history s')) - 1"
    "pin_history s' = (if history_index s < int (length (pin_history s)) - 1
        then slice_to (pin_history s) (history_index s + 1) else pin_history s) @ [PinView p]"
    "back_enabled s' = (history_index s' > 0)" "forward_enabled s' = False"
    using show_pin_info_direct [of s p] by blast
  have "nav_inv s'" using s'(2,4,5) by (simp add: nav_inv_def s'(3))
  with s'(1) PinClicked show ?thesis by simp
next
  case (CategoryClicked k n)
  obtain s' where s': "show_category_pins s k n False = Inr s'"
    "history_index s' = int (length (pin_history s')) - 1"
    "pin_history s' = (if history_index s < int (length (pin_history s)) - 1
        then slice_to (pin_history s) (history_index s + 1) else pin_history s)
        @ [CategoryView k n]"
    "back_enabled s' = (history_index s' > 0)" "forward_enabled s' = False"
    using show_category_pins_direct [of s k n] by blast
  have "nav_inv s'" using s'(2,4,5) by (simp add: nav_inv_def s'(3))
  with s'(1) CategoryClicked show ?thesis by simp
next
  case BackRequested
  show ?thesis
  proof (cases "0 < history_index s")
    case True
    with assms have "history_index s < int (length (pin_history s))" by (simp add: nav_inv_def)
    from navigate_back_step [OF True this] obtain r where
      r: "navigate_back s = Inr (update_navigation_buttons r)"
         "pin_history r = pin_history s" "history_index r = history_index s - 1"
      by blast
    have "nav_inv (update_navigation_buttons r)"
      using assms True by (simp add: nav_inv_def update_navigation_buttons_fields r)
    with r(1) BackRequested show ?thesis by simp
  next
    case False
    with assms BackRequested show ?thesis by (simp add: navigate_back_def)
  qed
next
  case ForwardRequested
  show ?thesis
  proof (cases "history_index s < int (length (pin_history s)) - 1")
    case True
    from assms have "- 1 \<le> history_index s" by (simp add: nav_inv_def)
    from navigate_forward_step [OF this True] obtain r where
      r: "navigate_forward s = Inr (update_navigation_buttons r)"
         "pin_history r = pin_history s" "history_index r = history_index s + 1"
      by blast
    have "nav_inv (update_navigation_buttons r)"
      using assms True by (simp add: nav_inv_def update_navigation_buttons_fields r)
    with r(1) ForwardRequested show ?thesis by simp
  next
    case False
    with assms ForwardRequested show ?thesis by (simp add: navigate_forward_def)
  qed
qed

lemma nav_inv_run: "nav_inv s \<Longrightarrow> \<exists>s'. run s es = Inr s' \<and> nav_inv s'"
proof (induction es arbitrary: s)
  case Nil
  then show ?case by simp
next
  case (Cons e es)
  from nav_inv_handle [OF Cons.prems, of e] obtain s1 where
    s1: "handle s e = Inr s1" "nav_inv s1" by blast
  from Cons.IH [OF s1(2)] s1(1) show ?case by simp
qed

subsection \<open>The shipped data\<close>

lemma pin_type_Pin [simp]: "pin_type (Pin n fs t nt) = t" "pin_type (Pin3 n fs t) = t"
  by (simp_all add: Pin_def Pin3_def)

lemma pin_item_keys:
  "map fst pin_items =
    [''GPIO0'', ''GPIO1'', ''GPIO2'', ''GPIO3'', ''GPIO4'', ''GPIO5'', ''GPIO6'', ''GPIO7'',
     ''GPIO8'', ''GPIO9'', ''GPIO10'', ''GPIO11'', ''GPIO12'', ''GPIO13'', ''GPIO14'',
     ''GPIO15'', ''GPIO16'', ''GPIO17'', ''GPIO18'', ''GPIO19'', ''GPIO21'', ''GPIO22'',
     ''GPIO23'', ''GPIO25'', ''GPIO26'', ''GPIO27'', ''GPIO32'', ''GPIO33'', ''GPIO34'',
     ''GPIO35'', ''GPIO36'', ''GPIO39'', ''EN'', ''VIN'', ''3V3'', ''GND2'', ''GND3'', ''GND1'']"
  unfolding pin_items_def by (simp only: list.map fst_conv)

lemma pin_item_types:
  "map (\<lambda>kv. (fst kv, pin_type (snd kv))) pin_items =
    [(''GPIO0'', ''Input/Output''), (''GPIO1'', ''Input/Output''), (''GPIO2'', ''Input/Output''),
     (''GPIO3'', ''Input/Output''), (''GPIO4'', ''Input/Output''), (''GPIO5'', ''Input/Output''),
     (''GPIO6'', ''Internal (do not use)''), (''GPIO7'', ''Internal (do not use)''),
     (''GPIO8'', ''Internal (do not use)''), (''GPIO9'', ''Internal (do not use)''),
     (''GPIO10'', ''Internal (do not use)''), (''GPIO11'', ''Internal (do not use)''),
     (''GPIO12'', ''Input only''), (''GPIO13'', ''Input/Output''), (''GPIO14'', ''Input/Output''),
     (''GPIO15'', ''Input/Output''), (''GPIO16'', ''Input/Output''), (''GPIO17'', ''Input/Output''),
     (''GPIO18'', ''Input/Output''), (''GPIO19'', ''Input/Output''), (''GPIO21'', ''Input/Output''),
     (''GPIO22'', ''Input/Output''), (''GPIO23'', ''Input/Output''), (''GPIO25'', ''Input/Output''),
     (''GPIO26'', ''Input/Output''), (''GPIO27'', ''Input/Output''), (''GPIO32'', ''Input/Output''),
     (''GPIO33'', ''Input/Output''), (''GPIO34'', ''Input only''), (''GPIO35'', ''Input only''),
     (''GPIO36'', ''Input only''), (''GPIO39'', ''Input only''), (''EN'', ''Input''),
     (''VIN'', ''Power''), (''3V3'', ''Power''), (''GND2'', ''Power''), (''GND3'', ''Power''),
     (''GND1'', ''Power'')]"
  unfolding pin_items_def by (simp only: list.map fst_conv snd_conv pin_type_Pin)

lemma pin_items_distinct: "distinct (map fst pin_items)"
  unfolding pin_item_keys by simp

lemma initialize_pins_items: "initialize_pins = pin_items"
  unfolding initialize_pins_def by (rule dict_display_distinct) (rule pin_items_distinct)

lemma pins_of_type_via:
  "pins_of_type d t = map fst (filter (\<lambda>kt. snd kt = t) (map (\<lambda>kv. (fst kv, pin_type (snd kv))) d))"
  by (induction d) (auto simp: pins_of_type_def)

lemma input_only_pins_value:
  "pins_of_type initialize_pins ''Input only'' =
     [''GPIO12'', ''GPIO34'', ''GPIO35'', ''GPIO36'', ''GPIO39'']"
  unfolding pins_of_type_via initialize_pins_items pin_item_types by simp

lemma in_out_pins_value:
  "pins_of_type initialize_pins ''Input/Output'' =
     [''GPIO0'', ''GPIO1'', ''GPIO2'', ''GPIO3'', ''GPIO4'', ''GPIO5'', ''GPIO13'', ''GPIO14'',
      ''GPIO15'', ''GPIO16'', ''GPIO17'', ''GPIO18'', ''GPIO19'', ''GPIO21'', ''GPIO22'',
      ''GPIO23'', ''GPIO25'', ''GPIO26'', ''GPIO27'', ''GPIO32'', ''GPIO33'']"
  unfolding pins_of_type_via initialize_pins_items pin_item_types by simp

lemma pin_position_keys:
  "map fst pin_position_items =
    [''GPIO0'', ''GPIO1'', ''GPIO2'', ''GPIO3'', ''GPIO4'', ''GPIO5'', ''GPIO6'', ''GPIO7'',
     ''GPIO8'', ''GPIO9'', ''GPIO10'', ''GPIO11'', ''GPIO12'', ''GPIO13'', ''GPIO14'',
     ''GPIO15'', ''GPIO16'', ''GPIO17'', ''GPIO18'', ''GPIO19'', ''GPIO21'', ''GPIO22'',
     ''GPIO23'', ''GPIO25'', ''GPIO26'', ''GPIO27'', ''GPIO32'', ''GPIO33'', ''GPIO34'',
     ''GPIO35'', ''GPIO36'', ''GPIO39'', ''EN'', ''VIN'', ''GND1'', ''GND2'', ''GND3'', ''3V3'']"
  unfolding pin_position_items_def by (simp only: Let_def list.map fst_conv)

lemma pin_positions_distinct: "distinct (map fst pin_position_items)"
  unfolding pin_position_keys by simp

lemma pin_button_keys:
  "dict_keys (create_pin_buttons d) = map fst pin_position_items"
proof -
  have pos: "get_pin_positions = pin_position_items"
    unfolding get_pin_positions_def
    by (rule dict_display_distinct) (rule pin_positions_distinct)
  have fn: "(\<lambda>bs kv. case kv of (pin_id, x, y, w, h) \<Rightarrow>
             AList.update pin_id (PinButton pin_id x y w h (get_pin_category d pin_id)) bs)
        = (\<lambda>bs kv. AList.update (fst kv)
             (case kv of (pin_id, x, y, w, h) \<Rightarrow>
                PinButton pin_id x y w h (get_pin_category d pin_id)) bs)"
    by (simp add: fun_eq_iff split: prod.split)
  have "foldl (\<lambda>bs kv. AList.update (fst kv)
             (case kv of (pin_id, x, y, w, h) \<Rightarrow>
                PinButton pin_id x y w h (get_pin_category d pin_id)) bs) [] pin_position_items
        = map (\<lambda>kv. (fst kv, case kv of (pin_id, x, y, w, h) \<Rightarrow>
                PinButton pin_id x y w h (get_pin_category d pin_id))) pin_position_items"
    using foldl_update_fresh [of "[]" pin_position_items
        "\<lambda>kv. case kv of (pin_id, x, y, w, h) \<Rightarrow>
                PinButton pin_id x y w h (get_pin_category d pin_id)"] pin_positions_distinct
    by simp
  then show ?thesis
    unfolding create_pin_buttons_def pos fn dict_keys_def by (simp add: comp_def)
qed

lemma PinoutApp_fields:
  "pin_data (PinoutApp cw) = ESP32PinData"
  "dict_keys (pin_buttons (PinoutApp cw)) = map fst pin_position_items"
  "pin_history (PinoutApp cw) = []"
  "history_index (PinoutApp cw) = - 1"
  "info_layout (PinoutApp cw) = [Placeholder]"
  "highlighted_buttons (PinoutApp cw) = []"
  "arrow_labels (PinoutApp cw) = []"
  by (simp_all add: PinoutApp_def pin_button_keys)

lemma ESP32PinData_pins: "pins ESP32PinData = pin_items"
  by (simp add: ESP32PinData_def initialize_pins_items)

lemma ESP32PinData_input_only:
  "input_only_pins ESP32PinData = [''GPIO12'', ''GPIO34'', ''GPIO35'', ''GPIO36'', ''GPIO39'']"
  by (simp add: ESP32PinData_def input_only_pins_value)

lemma default_pins_value:
  "category_pins (PinoutApp cw) ''default'' =
     [''GPIO6'', ''GPIO7'', ''GPIO8'', ''GPIO9'', ''GPIO10'', ''GPIO11'']"
  unfolding category_pins_def PinoutApp_fields pin_position_keys
  by (simp add: ESP32PinData_def input_only_pins_value in_out_pins_value startswith_def)

lemma GPIO20_absent: "dict_get (pins (pin_data (PinoutApp cw))) ''GPIO20'' = None"
  unfolding dict_get_def PinoutApp_fields ESP32PinData_pins map_of_eq_None_iff
    set_map [symmetric] pin_item_keys
  by simp

lemma pins_of_type_set:
  "distinct (map fst d) \<Longrightarrow>
   set (pins_of_type d t) = {k. \<exists>p. dict_get d k = Some p \<and> pin_type p = t}"
  unfolding pins_of_type_def dict_get_def
  by (auto simp: image_iff intro: map_of_is_SomeI dest: map_of_SomeD)

text \<open>No handler touches the data set or the keys of the button store.\<close>

lemma handle_data:
  "nav_inv s \<Longrightarrow>
   \<exists>s'. handle s e = Inr s' \<and> nav_inv s' \<and> pin_data s' = pin_data s \<and>
        dict_keys (pin_buttons s') = dict_keys (pin_buttons s)"
proof (cases e)
  case (PinClicked p)
  assume "nav_inv s"
  from nav_inv_handle [OF this, of e] show ?thesis
    using show_pin_info_direct [of s p] PinClicked by auto
next
  case (CategoryClicked k n)
  assume "nav_inv s"
  from nav_inv_handle [OF this, of e] show ?thesis
    using show_category_pins_direct [of s k n] CategoryClicked by auto
next
  case BackRequested
  assume inv: "nav_inv s"
  show ?thesis
  proof (cases "0 < history_index s")
    case True
    from inv have "history_index s < int (length (pin_history s))" by (simp add: nav_inv_def)
    from navigate_back_step [OF True this] nav_inv_handle [OF inv, of e] BackRequested
    show ?thesis by (auto simp: update_navigation_buttons_fields)
  next
    case False
    with inv BackRequested show ?thesis by (simp add: navigate_back_def)
  qed
next
  case ForwardRequested
  assume inv: "nav_inv s"
  show ?thesis
  proof (cases "history_index s < int (length (pin_history s)) - 1")
    case True
    from inv have "- 1 \<le> history_index s" by (simp add: nav_inv_def)
    from navigate_forward_step [OF this True] nav_inv_handle [OF inv, of e] ForwardRequested
    show ?thesis by (auto simp: update_navigation_buttons_fields)
  next
    case False
    with inv ForwardRequested show ?thesis by (simp add: navigate_forward_def)
  qed
qed

lemma run_data:
  "nav_inv s \<Longrightarrow>
   \<exists>s'. run s es = Inr s' \<and> pin_data s' = pin_data s \<and>
        dict_keys (pin_buttons s') = dict_keys (pin_buttons s)"
proof (induction es arbitrary: s)
  case Nil
  then show ?case by simp
next
  case (Cons e es)
  from handle_data [OF Cons.prems, of e] obtain s1 where
    s1: "handle s e = Inr s1" "nav_inv s1" "pin_data s1 = pin_data s"
        "dict_keys (pin_buttons s1) = dict_keys (pin_buttons s)" by blast
  from Cons.IH [OF s1(2)] s1(1,3,4) show ?case by simp
qed

lemma run_category_pins:
  "\<exists>s. run (PinoutApp cw) evs = Inr s \<and> pin_data s = ESP32PinData \<and>
       dict_keys (pin_buttons s) = dict_keys (pin_buttons (PinoutApp cw)) \<and>
       (\<forall>k. category_pins s k = category_pins (PinoutApp cw) k)"
proof -
  from run_data [OF nav_inv_init, of cw evs] obtain s where
    s: "run (PinoutApp cw) evs = Inr s" "pin_data s = pin_data (PinoutApp cw)"
       "dict_keys (pin_buttons s) = dict_keys (pin_buttons (PinoutApp cw))" by blast
  have "category_pins s k = category_pins (PinoutApp cw) k" for k
    by (rule category_pins_cong) (rule s)+
  with s show ?thesis by (simp add: PinoutApp_fields)
qed

lemma input_only_category_value:
  "category_pins (PinoutApp cw) ''Input only'' =
     [''GPIO12'', ''GPIO34'', ''GPIO35'', ''GPIO36'', ''GPIO39'']"
  by (simp add: category_pins_def PinoutApp_fields ESP32PinData_input_only)

lemma default_five_lists_value:
  "filter (\<lambda>k. startswith k ''GPIO'' \<and>
               k \<notin> set (i2c_pins ESP32PinData @ adc_pins ESP32PinData @ spi_pins ESP32PinData
                        @ pwm_pins ESP32PinData @ power_pins ESP32PinData))
          (dict_keys (pin_buttons (PinoutApp cw)))
   = [''GPIO6'', ''GPIO7'', ''GPIO8'', ''GPIO9'', ''GPIO10'', ''GPIO11'']"
  unfolding PinoutApp_fields pin_position_keys
  by (simp add: ESP32PinData_def startswith_def)

lemma button_keys_are_pin_keys:
  "set (dict_keys (pin_buttons (PinoutApp cw))) = set (dict_keys (pins ESP32PinData))"
proof -
  have "set (map fst pin_position_items) = set (map fst pin_items)"
    unfolding pin_position_keys pin_item_keys by (simp add: insert_commute)
  then show ?thesis
    unfolding PinoutApp_fields ESP32PinData_pins by (simp only: dict_keys_def)
qed

lemma gpio_keys_value:
  "filter (\<lambda>k. startswith k ''GPIO'') (dict_keys (pins ESP32PinData)) =
    [''GPIO0'', ''GPIO1'', ''GPIO2'', ''GPIO3'', ''GPIO4'', ''GPIO5'', ''GPIO6'', ''GPIO7'',
     ''GPIO8'', ''GPIO9'', ''GPIO10'', ''GPIO11'', ''GPIO12'', ''GPIO13'', ''GPIO14'',
     ''GPIO15'', ''GPIO16'', ''GPIO17'', ''GPIO18'', ''GPIO19'', ''GPIO21'', ''GPIO22'',
     ''GPIO23'', ''GPIO25'', ''GPIO26'', ''GPIO27'', ''GPIO32'', ''GPIO33'', ''GPIO34'',
     ''GPIO35'', ''GPIO36'', ''GPIO39'']"
  unfolding ESP32PinData_pins dict_keys_def pin_item_keys
  by (simp add: startswith_def)

lemma other_keys_value:
  "filter (\<lambda>k. \<not> startswith k ''GPIO'') (dict_keys (pins ESP32PinData)) =
    [''EN'', ''VIN'', ''3V3'', ''GND2'', ''GND3'', ''GND1'']"
  unfolding ESP32PinData_pins dict_keys_def pin_item_keys
  by (simp add: startswith_def)

lemma pin_keys_length: "length (pins ESP32PinData) = 38"
proof -
  have "length (map fst pin_items) = 38" unfolding pin_item_keys by simp
  then show ?thesis by (simp add: ESP32PinData_pins)
qed

lemma default_pins_are_buttons:
  "filter (dict_contains (pin_buttons s)) (category_pins s ''default'')
     = category_pins s ''default''"
  unfolding filter_id_conv
  by (simp add: category_pins_def Let_def dict_contains_def dict_keys_def)

subsection \<open>The highlight invariant\<close>

lemma hl_inv_cong:
  "pin_buttons s' = pin_buttons s \<Longrightarrow> highlighted_buttons s' = highlighted_buttons s \<Longrightarrow>
   hl_inv s' = hl_inv s"
  by (simp add: hl_inv_def)

lemma restore_style_idem: "restore_style (restore_style b) = restore_style b"
  by (cases "original_style b") (simp_all add: restore_style_def)

lemma map_of_foldl_map_entry:
  assumes "\<And>b. f (f b) = f b"
  shows "map_of (foldl (\<lambda>bs k. AList.map_entry k f bs) al ks) k
           = (if k \<in> set ks then map_option f (map_of al k) else map_of al k)"
proof (induction ks arbitrary: al)
  case Nil
  then show ?case by simp
next
  case (Cons x ks)
  have step: "map_of (AList.map_entry x f al) k'
                = (if k' = x then map_option f (map_of al k') else map_of al k')" for k'
    by (cases "map_of al x") (simp_all add: AList.map_of_map_entry)
  have "map_of (foldl (\<lambda>bs k. AList.map_entry k f bs) al (x # ks)) k
          = (if k \<in> set ks then map_option f (map_of (AList.map_entry x f al) k)
             else map_of (AList.map_entry x f al) k)"
    using Cons.IH [of "AList.map_entry x f al"] by simp
  also have "\<dots> = (if k \<in> set (x # ks) then map_option f (map_of al k) else map_of al k)"
    using assms by (cases "map_of al k") (auto simp: step)
  finally show ?case .
qed

lemma restore_style_fields:
  "original_style (restore_style b) = original_style b"
  "styleSheet (restore_style b)
     = (case original_style b of Some st \<Rightarrow> st | None \<Rightarrow> styleSheet b)"
  by (cases "original_style b"; simp add: restore_style_def)+

lemma clear_highlights_buttons:
  "dict_get (pin_buttons (clear_highlights s)) k
     = (if k \<in> set (highlighted_buttons s) then map_option restore_style (dict_get (pin_buttons s) k)
        else dict_get (pin_buttons s) k)"
  unfolding dict_get_def clear_highlights_def
  using map_of_foldl_map_entry [of restore_style "pin_buttons s" "highlighted_buttons s" k]
  by (simp add: restore_style_idem)

lemma hl_inv_clear:
  assumes "hl_inv s"
  shows "hl_inv (clear_highlights s)"
  unfolding hl_inv_def
proof (intro conjI allI impI)
  show "distinct (dict_keys (pin_buttons (clear_highlights s)))"
    using assms by (simp add: clear_highlights_fields hl_inv_def)
  show "set (highlighted_buttons (clear_highlights s))
          \<subseteq> set (dict_keys (pin_buttons (clear_highlights s)))"
    by (simp add: clear_highlights_fields)
next
  fix k b
  assume get: "dict_get (pin_buttons (clear_highlights s)) k = Some b"
  then obtain b0 where b0: "dict_get (pin_buttons s) k = Some b0"
    and b: "b = (if k \<in> set (highlighted_buttons s) then restore_style b0 else b0)"
    by (auto simp: clear_highlights_buttons split: if_splits)
  from assms b0 have inv:
    "is_highlight (styleSheet b0) = (k \<in> set (highlighted_buttons s))"
    "is_highlight (styleSheet b0) \<longrightarrow> original_style b0 \<noteq> None"
    "\<forall>st. original_style b0 = Some st \<longrightarrow> \<not> is_highlight st"
    unfolding hl_inv_def by blast+
  have orig: "original_style b = original_style b0"
    by (simp add: b restore_style_fields)
  have plain: "\<not> is_highlight (styleSheet b)"
  proof (cases "k \<in> set (highlighted_buttons s)")
    case True
    then obtain st where "original_style b0 = Some st" using inv(1,2) by auto
    with inv(3) True show ?thesis by (simp add: b restore_style_fields)
  next
    case False
    with inv(1) show ?thesis by (simp add: b)
  qed
  show "is_highlight (styleSheet b) = (k \<in> set (highlighted_buttons (clear_highlights s)))"
    using plain by (simp add: clear_highlights_fields)
  show "original_style b \<noteq> None" if "is_highlight (styleSheet b)"
    using that plain by simp
  show "\<not> is_highlight st" if "original_style b = Some st" for st
    using that inv(3) orig by simp
qed

lemma highlighted_fields:
  "styleSheet (highlighted d b) = HighlightStyle (hover_color_of (get_pin_category d (btn_pin_id b)))"
  "original_style (highlighted d b)
     = (if original_style b = None then Some (styleSheet b) else original_style b)"
  by (simp_all add: highlighted_def Let_def)

lemma highlight_button_buttons:
  "dict_contains (pin_buttons s) p \<Longrightarrow>
   dict_get (pin_buttons (highlight_button s p)) k
     = (if k = p then map_option (highlighted (pin_data s)) (dict_get (pin_buttons s) k)
        else dict_get (pin_buttons s) k)"
  using dict_contains_get [of "pin_buttons s" p]
  by (auto simp: highlight_button_def dict_get_def AList.map_of_map_entry)

lemma hl_inv_highlight:
  assumes "hl_inv s" and "dict_contains (pin_buttons s) p"
  shows "hl_inv ((highlight_button s p)\<lparr>highlighted_buttons :=
                    highlighted_buttons (highlight_button s p) @ [p]\<rparr>)"
    (is "hl_inv ?s1")
  unfolding hl_inv_def
proof (intro conjI allI impI)
  have hb: "highlighted_buttons ?s1 = highlighted_buttons s @ [p]"
    by (simp add: highlight_button_fields)
  have keys: "dict_keys (pin_buttons ?s1) = dict_keys (pin_buttons s)"
    by (simp add: highlight_button_fields)
  show "distinct (dict_keys (pin_buttons ?s1))"
    using assms(1) by (simp only: keys hl_inv_def)
  have "p \<in> set (dict_keys (pin_buttons s))"
    using assms(2) by (simp add: dict_contains_def dict_keys_def)
  moreover have "set (highlighted_buttons s) \<subseteq> set (dict_keys (pin_buttons s))"
    using assms(1) by (simp add: hl_inv_def)
  ultimately show "set (highlighted_buttons ?s1) \<subseteq> set (dict_keys (pin_buttons ?s1))"
    unfolding keys hb by simp
  fix k b
  assume "dict_get (pin_buttons ?s1) k = Some b"
  then have get: "dict_get (pin_buttons (highlight_button s p)) k = Some b" by simp
  then obtain b0 where b0: "dict_get (pin_buttons s) k = Some b0"
    and b: "b = (if k = p then highlighted (pin_data s) b0 else b0)"
    by (auto simp: highlight_button_buttons [OF assms(2)] split: if_splits)
  from assms(1) b0 have inv:
    "is_highlight (styleSheet b0) = (k \<in> set (highlighted_buttons s))"
    "is_highlight (styleSheet b0) \<longrightarrow> original_style b0 \<noteq> None"
    "\<forall>st. original_style b0 = Some st \<longrightarrow> \<not> is_highlight st"
    unfolding hl_inv_def by blast+
  show "is_highlight (styleSheet b) = (k \<in> set (highlighted_buttons ?s1))"
    using inv(1) by (simp add: b hb highlighted_fields is_highlight_def)
  show "original_style b \<noteq> None" if "is_highlight (styleSheet b)"
    using that inv(2) by (simp add: b highlighted_fields split: if_splits)
  show "\<not> is_highlight st" if "original_style b = Some st" for st
    using that inv(2,3) by (auto simp: b highlighted_fields split: if_splits)
qed

lemma hl_inv_highlight_pins: "hl_inv s \<Longrightarrow> hl_inv (highlight_pins s pns)"
proof (induction pns arbitrary: s)
  case Nil
  then show ?case by (simp add: highlight_pins_Nil)
next
  case (Cons p pns)
  show ?case
  proof (cases "dict_contains (pin_buttons s) p")
    case True
    from Cons.IH [OF hl_inv_highlight [OF Cons.prems True]] True
    show ?thesis by (simp add: highlight_pins_Cons)
  next
    case False
    with Cons.IH [OF Cons.prems] show ?thesis by (simp add: highlight_pins_Cons)
  qed
qed

lemma show_pin_info_buttons:
  "\<exists>t. show_pin_info s p nav = Inr t \<and>
       pin_buttons t = pin_buttons (clear_highlights s) \<and>
       highlighted_buttons t = highlighted_buttons (clear_highlights s)"
  by (cases nav)
     (simp_all add: show_pin_info_def Let_def update_navigation_buttons_def split: option.split)

lemma hl_inv_show_pin_info:
  assumes "hl_inv s" and "show_pin_info s p nav = Inr s'"
  shows "hl_inv s'"
proof -
  from show_pin_info_buttons [of s p nav] assms(2)
  have "pin_buttons s' = pin_buttons (clear_highlights s)"
    "highlighted_buttons s' = highlighted_buttons (clear_highlights s)"
    by simp_all
  then have "hl_inv s' = hl_inv (clear_highlights s)" by (rule hl_inv_cong)
  with hl_inv_clear [OF assms(1)] show ?thesis by simp
qed

lemma hl_inv_show_category_pins:
  assumes "hl_inv s" and "show_category_pins s k n nav = Inr s'"
  shows "hl_inv s'"
proof -
  define s2 where "s2 = (if \<not> nav then
                 (let h = (if history_index (clear_highlights s)
                                < int (length (pin_history (clear_highlights s))) - 1
                           then slice_to (pin_history (clear_highlights s))
                                  (history_index (clear_highlights s) + 1)
                           else pin_history (clear_highlights s));
                      h' = h @ [CategoryView k n]
                  in update_navigation_buttons
                       ((clear_highlights s)\<lparr>pin_history := h',
                                               history_index := int (length h') - 1\<rparr>))
               else clear_highlights s)"
  have s': "s' = display_category_info (highlight_pins s2 (category_pins s2 k)) n
                   (category_pins s2 k)"
    using assms(2) by (simp add: show_category_pins_def Let_def s2_def)
  have "pin_buttons s2 = pin_buttons (clear_highlights s)"
    "highlighted_buttons s2 = highlighted_buttons (clear_highlights s)"
    by (simp_all add: s2_def Let_def update_navigation_buttons_def)
  then have "hl_inv s2 = hl_inv (clear_highlights s)" by (rule hl_inv_cong)
  with hl_inv_clear [OF assms(1)] have "hl_inv s2" by simp
  then have "hl_inv (highlight_pins s2 (category_pins s2 k))" by (rule hl_inv_highlight_pins)
  moreover have "hl_inv s' = hl_inv (highlight_pins s2 (category_pins s2 k))"
    unfolding s' by (rule hl_inv_cong) (simp_all add: display_category_info_fields)
  ultimately show ?thesis by simp
qed

lemma hl_inv_replay:
  assumes "hl_inv s" and "replay s e = Inr s'"
  shows "hl_inv s'"
proof (cases e)
  case (PinView p)
  with assms(2) have "show_pin_info s p True = Inr s'" by (simp add: replay_def)
  with assms(1) show ?thesis by (rule hl_inv_show_pin_info)
next
  case (CategoryView k n)
  with assms(2) have "show_category_pins s k n True = Inr s'" by (simp add: replay_def)
  with assms(1) show ?thesis by (rule hl_inv_show_category_pins)
qed

lemma hl_inv_update_navigation_buttons:
  "hl_inv (update_navigation_buttons s) = hl_inv s"
  by (rule hl_inv_cong) (simp_all add: update_navigation_buttons_def)

lemma hl_inv_history_index: "hl_inv (s\<lparr>history_index := i\<rparr>) = hl_inv s"
  by (rule hl_inv_cong) simp_all

lemma hl_inv_navigate_back:
  assumes "hl_inv s" and "navigate_back s = Inr s'"
  shows "hl_inv s'"
proof (cases "0 < history_index s")
  case True
  let ?s1 = "s\<lparr>history_index := history_index s - 1\<rparr>"
  from assms(2) True obtain e r where r: "replay ?s1 e = Inr r"
    "s' = update_navigation_buttons r"
    by (simp add: navigate_back_def Let_def split: option.splits sum.splits)
  have "hl_inv ?s1" using assms(1) by (simp only: hl_inv_history_index)
  from hl_inv_replay [OF this r(1)] show ?thesis
    by (simp only: r(2) hl_inv_update_navigation_buttons)
next
  case False
  with assms show ?thesis by (simp add: navigate_back_def)
qed

lemma hl_inv_navigate_forward:
  assumes "hl_inv s" and "navigate_forward s = Inr s'"
  shows "hl_inv s'"
proof (cases "history_index s < int (length (pin_history s)) - 1")
  case True
  let ?s1 = "s\<lparr>history_index := history_index s + 1\<rparr>"
  from assms(2) True obtain e r where r: "replay ?s1 e = Inr r"
    "s' = update_navigation_buttons r"
    by (simp add: navigate_forward_def Let_def split: option.splits sum.splits)
  have "hl_inv ?s1" using assms(1) by (simp only: hl_inv_history_index)
  from hl_inv_replay [OF this r(1)] show ?thesis
    by (simp only: r(2) hl_inv_update_navigation_buttons)
next
  case False
  with assms show ?thesis by (simp add: navigate_forward_def)
qed

lemma hl_inv_handle:
  assumes "hl_inv s" and "handle s e = Inr s'"
  shows "hl_inv s'"
proof (cases e)
  case (PinClicked p)
  with assms(2) have "show_pin_info s p False = Inr s'" by simp
  with assms(1) show ?thesis by (rule hl_inv_show_pin_info)
next
  case (CategoryClicked k n)
  with assms(2) have "show_category_pins s k n False = Inr s'" by simp
  with assms(1) show ?thesis by (rule hl_inv_show_category_pins)
next
  case BackRequested
  with assms(2) have "navigate_back s = Inr s'" by simp
  with assms(1) show ?thesis by (rule hl_inv_navigate_back)
next
  case ForwardRequested
  with assms(2) have "navigate_forward s = Inr s'" by simp
  with assms(1) show ?thesis by (rule hl_inv_navigate_forward)
qed

lemma hl_inv_run: "hl_inv s \<Longrightarrow> run s es = Inr s' \<Longrightarrow> hl_inv s'"
proof (induction es arbitrary: s)
  case Nil
  then show ?case by simp
next
  case (Cons e es)
  from Cons.prems(2) obtain s1 where s1: "handle s e = Inr s1" "run s1 es = Inr s'"
    by (auto split: sum.splits)
  from Cons.IH [OF hl_inv_handle [OF Cons.prems(1) s1(1)] s1(2)] show ?case .
qed

lemma create_pin_buttons_map:
  "create_pin_buttons d
    = map (\<lambda>kv. (fst kv, case kv of (pin_id, x, y, w, h) \<Rightarrow>
                PinButton pin_id x y w h (get_pin_category d pin_id))) pin_position_items"
proof -
  have pos: "get_pin_positions = pin_position_items"
    unfolding get_pin_positions_def
    by (rule dict_display_distinct) (rule pin_positions_distinct)
  have fn: "(\<lambda>bs kv. case kv of (pin_id, x, y, w, h) \<Rightarrow>
             AList.update pin_id (PinButton pin_id x y w h (get_pin_category d pin_id)) bs)
        = (\<lambda>bs kv. AList.update (fst kv)
             (case kv of (pin_id, x, y, w, h) \<Rightarrow>
                PinButton pin_id x y w h (get_pin_category d pin_id)) bs)"
    by (simp add: fun_eq_iff split: prod.split)
  show ?thesis
    unfolding create_pin_buttons_def pos fn
    using foldl_update_fresh [of "[]" pin_position_items
        "\<lambda>kv. case kv of (pin_id, x, y, w, h) \<Rightarrow>
                PinButton pin_id x y w h (get_pin_category d pin_id)"] pin_positions_distinct
    by simp
qed

lemma hl_inv_init: "hl_inv (PinoutApp cw)"
  unfolding hl_inv_def
proof (intro conjI allI impI)
  show "distinct (dict_keys (pin_buttons (PinoutApp cw)))"
    by (simp only: PinoutApp_fields pin_positions_distinct)
  show "set (highlighted_buttons (PinoutApp cw)) \<subseteq> set (dict_keys (pin_buttons (PinoutApp cw)))"
    by (simp add: PinoutApp_fields)
  fix k b
  assume "dict_get (pin_buttons (PinoutApp cw)) k = Some b"
  then have "(k, b) \<in> set (create_pin_buttons ESP32PinData)"
    by (auto simp: PinoutApp_def dict_get_def dest: map_of_SomeD)
  then have b: "\<not> is_highlight (styleSheet b)" "original_style b = None"
    by (auto simp: create_pin_buttons_map PinButton_def is_highlight_def)
  show "is_highlight (styleSheet b) = (k \<in> set (highlighted_buttons (PinoutApp cw)))"
    using b by (simp add: PinoutApp_fields)
  show "original_style b \<noteq> None" if "is_highlight (styleSheet b)"
    using that b by simp
  show "\<not> is_highlight st" if "original_style b = Some st" for st
    using that b by simp
qed

lemma styled_buttons_set:
  assumes "hl_inv s"
  shows "set (styled_buttons s) = set (highlighted_buttons s)"
proof -
  from assms have dist: "distinct (map fst (pin_buttons s))"
    by (simp add: hl_inv_def dict_keys_def)
  have get: "dict_get (pin_buttons s) k = Some b \<longleftrightarrow> (k, b) \<in> set (pin_buttons s)" for k b
    unfolding dict_get_def using dist by (rule map_of_eq_Some_iff)
  show ?thesis
  proof (intro set_eqI iffI)
    fix k
    assume "k \<in> set (styled_buttons s)"
    then obtain b where "(k, b) \<in> set (pin_buttons s)" "is_highlight (styleSheet b)"
      by (auto simp: styled_buttons_def)
    with assms get show "k \<in> set (highlighted_buttons s)"
      unfolding hl_inv_def by blast
  next
    fix k
    assume k: "k \<in> set (highlighted_buttons s)"
    with assms have "dict_contains (pin_buttons s) k"
      by (auto simp: hl_inv_def dict_contains_def dict_keys_def)
    from dict_contains_get [OF this] obtain b where b: "dict_get (pin_buttons s) k = Some b"
      by blast
    with assms k have "is_highlight (styleSheet b)"
      unfolding hl_inv_def by blast
    moreover from b get have "(k, b) \<in> set (pin_buttons s)" by simp
    ultimately show "k \<in> set (styled_buttons s)"
      by (force simp: styled_buttons_def)
  qed
qed

subsection \<open>The category panel\<close>

lemma name_Pin: "name (Pin n fs t nt) = n" "name (Pin3 n fs t) = n"
  by (simp_all add: Pin_def Pin3_def)

lemma pin_item_names:
  "map (\<lambda>kv. (fst kv, name (snd kv))) pin_items =
    [(''GPIO0'', ''GPIO0''), (''GPIO1'', ''GPIO1 (TX0)''), (''GPIO2'', ''GPIO2''),
     (''GPIO3'', ''GPIO3 (RX0)''), (''GPIO4'', ''GPIO4''), (''GPIO5'', ''GPIO5''),
     (''GPIO6'', ''GPIO6''), (''GPIO7'', ''GPIO7''), (''GPIO8'', ''GPIO8''),
     (''GPIO9'', ''GPIO9''), (''GPIO10'', ''GPIO10''), (''GPIO11'', ''GPIO11''),
     (''GPIO12'', ''GPIO12''), (''GPIO13'', ''GPIO13''), (''GPIO14'', ''GPIO14''),
     (''GPIO15'', ''GPIO15''), (''GPIO16'', ''GPIO16''), (''GPIO17'', ''GPIO17''),
     (''GPIO18'', ''GPIO18''), (''GPIO19'', ''GPIO19''), (''GPIO21'', ''GPIO21''),
     (''GPIO22'', ''GPIO22''), (''GPIO23'', ''GPIO23''), (''GPIO25'', ''GPIO25''),
     (''GPIO26'', ''GPIO26''), (''GPIO27'', ''GPIO27''), (''GPIO32'', ''GPIO32''),
     (''GPIO33'', ''GPIO33''), (''GPIO34'', ''GPIO34''), (''GPIO35'', ''GPIO35''),
     (''GPIO36'', ''GPIO36 (VP)''), (''GPIO39'', ''GPIO39 (VN)''), (''EN'', ''EN (Enable)''),
     (''VIN'', ''VIN''), (''3V3'', ''3.3V''), (''GND2'', ''GND''), (''GND3'', ''GND''),
     (''GND1'', ''GND'')]"
  unfolding pin_items_def by (simp only: list.map fst_conv snd_conv name_Pin)

text \<open>The tag of one pin in the category panel, from the table of display names.\<close>

lemma pin_tag_via_names:
  "(case dict_get d k of None \<Rightarrow> [] | Some pin_info \<Rightarrow> [PinTagButton k (name pin_info) c])
     = (case map_of (map (\<lambda>kv. (fst kv, name (snd kv))) d) k of
          None \<Rightarrow> [] | Some nm \<Rightarrow> [PinTagButton k nm c])"
  by (induction d) (auto simp: dict_get_def)

lemma display_category_info_layout:
  "info_layout (display_category_info s n pns) =
     [CategoryHeader n (length pns), SectionHeader ''Pins in this category:'']
     @ concat (map (\<lambda>ip. case map_of (map (\<lambda>kv. (fst kv, name (snd kv))) (pins (pin_data s)))
                                   (snd ip) of
                            None \<Rightarrow> []
                          | Some nm \<Rightarrow> [PinTagButton (snd ip) nm (colors ! (fst ip mod length colors))])
                   (enumerate 0 (sort pns)))
     @ [Stretch]"
  by (simp add: display_category_info_def pin_tag_via_names)

lemma sort_default_pins:
  "sort [''GPIO6'', ''GPIO7'', ''GPIO8'', ''GPIO9'', ''GPIO10'', ''GPIO11'']
     = [''GPIO10'', ''GPIO11'', ''GPIO6'', ''GPIO7'', ''GPIO8'', ''GPIO9'']"
  by code_simp

lemma sort_input_only_pins:
  "sort [''GPIO12'', ''GPIO34'', ''GPIO35'', ''GPIO36'', ''GPIO39'']
     = [''GPIO12'', ''GPIO34'', ''GPIO35'', ''GPIO36'', ''GPIO39'']"
  by code_simp

lemma enumerate_five: "enumerate 0 [a, b, c, d, e] = [(0, a), (1, b), (2, c), (3, d), (4, e)]"
  by (simp add: numeral_eq_Suc)

lemma enumerate_six:
  "enumerate 0 [a, b, c, d, e, f] = [(0, a), (1, b), (2, c), (3, d), (4, e), (5, f)]"
  by (simp add: numeral_eq_Suc)

lemma input_only_panel:
  assumes "pin_data s = ESP32PinData"
  shows "info_layout (display_category_info s n
            [''GPIO12'', ''GPIO34'', ''GPIO35'', ''GPIO36'', ''GPIO39''])
    = [CategoryHeader n 5, SectionHeader ''Pins in this category:'',
       PinTagButton ''GPIO12'' ''GPIO12'' ''#3498db'',
       PinTagButton ''GPIO34'' ''GPIO34'' ''#9b59b6'',
       PinTagButton ''GPIO35'' ''GPIO35'' ''#e74c3c'',
       PinTagButton ''GPIO36'' ''GPIO36 (VP)'' ''#f39c12'',
       PinTagButton ''GPIO39'' ''GPIO39 (VN)'' ''#1abc9c'', Stretch]"
  unfolding display_category_info_layout assms ESP32PinData_pins pin_item_names
    sort_input_only_pins enumerate_five
  by (simp add: colors_def)

lemma default_panel:
  assumes "pin_data s = ESP32PinData"
  shows "info_layout (display_category_info s n
            [''GPIO6'', ''GPIO7'', ''GPIO8'', ''GPIO9'', ''GPIO10'', ''GPIO11''])
    = [CategoryHeader n 6, SectionHeader ''Pins in this category:'',
       PinTagButton ''GPIO10'' ''GPIO10'' ''#3498db'',
       PinTagButton ''GPIO11'' ''GPIO11'' ''#9b59b6'',
       PinTagButton ''GPIO6'' ''GPIO6'' ''#e74c3c'',
       PinTagButton ''GPIO7'' ''GPIO7'' ''#f39c12'',
       PinTagButton ''GPIO8'' ''GPIO8'' ''#1abc9c'',
       PinTagButton ''GPIO9'' ''GPIO9'' ''#34495e'', Stretch]"
  unfolding display_category_info_layout assms ESP32PinData_pins pin_item_names
    sort_default_pins enumerate_six
  by (simp add: colors_def)

lemma display_category_info_layout_cong:
  "pin_data s1 = pin_data s2 \<Longrightarrow>
   info_layout (display_category_info s1 n pns) = info_layout (display_category_info s2 n pns)"
  by (simp add: display_category_info_def)

lemma show_category_pins_layout:
  "\<exists>t. show_category_pins s k n nav = Inr t \<and>
       info_layout t = info_layout (display_category_info s n (category_pins s k))"
proof -
  define s2 where "s2 = (if \<not> nav then
                 (let h = (if history_index (clear_highlights s)
                                < int (length (pin_history (clear_highlights s))) - 1
                           then slice_to (pin_history (clear_highlights s))
                                  (history_index (clear_highlights s) + 1)
                           else pin_history (clear_highlights s));
                      h' = h @ [CategoryView k n]
                  in update_navigation_buttons
                       ((clear_highlights s)\<lparr>pin_history := h',
                                               history_index := int (length h') - 1\<rparr>))
               else clear_highlights s)"
  have eq: "show_category_pins s k n nav
              = Inr (display_category_info (highlight_pins s2 (category_pins s2 k)) n
                       (category_pins s2 k))"
    by (simp add: show_category_pins_def Let_def s2_def)
  have s2: "pin_data s2 = pin_data s" "dict_keys (pin_buttons s2) = dict_keys (pin_buttons s)"
    by (simp_all add: s2_def Let_def update_navigation_buttons_def clear_highlights_fields)
  have cp: "category_pins s2 k = category_pins s k"
    by (rule category_pins_cong) (rule s2)+
  have "pin_data (highlight_pins s2 (category_pins s k)) = pin_data s"
    using highlight_pins_fields [of s2 "category_pins s k"] s2(1) by simp
  then have "info_layout (display_category_info (highlight_pins s2 (category_pins s k)) n
                            (category_pins s k))
               = info_layout (display_category_info s n (category_pins s k))"
    by (rule display_category_info_layout_cong)
  then show ?thesis unfolding eq cp by simp
qed

lemma show_category_pins_highlighted:
  "\<exists>t. show_category_pins s k n nav = Inr t \<and>
       highlighted_buttons t = filter (dict_contains (pin_buttons s)) (category_pins s k) \<and>
       length (arrow_labels t) = length (highlighted_buttons t)"
proof (cases nav)
  case True
  then show ?thesis using show_category_pins_replay [of s k n] by auto
next
  case False
  then show ?thesis using show_category_pins_direct [of s k n] by auto
qed

lemma input_only_pins_are_buttons:
  "filter (dict_contains (pin_buttons (PinoutApp cw)))
          [''GPIO12'', ''GPIO34'', ''GPIO35'', ''GPIO36'', ''GPIO39'']
     = [''GPIO12'', ''GPIO34'', ''GPIO35'', ''GPIO36'', ''GPIO39'']"
proof -
  have "dict_contains (pin_buttons (PinoutApp cw)) k
          = (k \<in> set (dict_keys (pin_buttons (PinoutApp cw))))" for k
    by (simp add: dict_contains_def dict_keys_def)
  then show ?thesis
    unfolding PinoutApp_fields pin_position_keys by simp
qed

text \<open>What holds of every state the application reaches.\<close>

lemma run_reaches:
  "\<exists>s. run (PinoutApp cw) evs = Inr s \<and> pin_data s = ESP32PinData \<and>
       dict_keys (pin_buttons s) = dict_keys (pin_buttons (PinoutApp cw)) \<and>
       dict_contains (pin_buttons s) = dict_contains (pin_buttons (PinoutApp cw)) \<and>
       (\<forall>k. category_pins s k = category_pins (PinoutApp cw) k) \<and>
       hl_inv s"
proof -
  from run_category_pins [of cw evs] obtain s where
    s: "run (PinoutApp cw) evs = Inr s" "pin_data s = ESP32PinData"
       "dict_keys (pin_buttons s) = dict_keys (pin_buttons (PinoutApp cw))"
       "\<forall>k. category_pins s k = category_pins (PinoutApp cw) k"
    by blast
  have "dict_contains (pin_buttons s) = dict_contains (pin_buttons (PinoutApp cw))"
    using s(3) by (rule dict_contains_cong)
  moreover have "hl_inv s" using hl_inv_init s(1) by (rule hl_inv_run)
  ultimately show ?thesis using s by blast
qed

section \<open>The claims\<close>

text \<open>
  C1. Recording a view by direct interaction while the index is before the last entry
  discards exactly the entries after the index, appends the new entry and moves the index
  to it. From the history \<open>[A, B, C]\<close> at index 2, going back twice and recording \<open>D\<close>
  gives the history \<open>[A, D]\<close> at index 1.
\<close>

theorem record_view_discards_forward:
  "(- 1 \<le> history_index s \<and> history_index s < int (length (pin_history s)) - 1 \<longrightarrow>
      (\<exists>s'. record_view s d = Inr s' \<and>
            pin_history s' = take (nat (history_index s + 1)) (pin_history s) @ [d] \<and>
            history_index s' = int (length (pin_history s')) - 1))
   \<and> (pin_history t = [A, B, C] \<and> history_index t = 2 \<longrightarrow>
      (\<exists>t1 t2 t3. navigate_back t = Inr t1 \<and> navigate_back t1 = Inr t2 \<and>
            history_index t2 = 0 \<and> record_view t2 D = Inr t3 \<and>
            pin_history t3 = [A, D] \<and> history_index t3 = 1))"
proof (intro conjI impI)
  have rec: "\<exists>s'. record_view s e = Inr s' \<and>
            pin_history s' = take (nat (history_index s + 1)) (pin_history s) @ [e] \<and>
            history_index s' = int (length (pin_history s')) - 1"
    if "- 1 \<le> history_index s" "history_index s < int (length (pin_history s)) - 1"
    for s e
  proof (cases e)
    case (PinView p)
    with that show ?thesis
      using show_pin_info_direct [of s p] by (auto simp: record_view_def slice_to_take)
  next
    case (CategoryView k n)
    with that show ?thesis
      using show_category_pins_direct [of s k n] by (auto simp: record_view_def slice_to_take)
  qed
  {
    assume "- 1 \<le> history_index s \<and> history_index s < int (length (pin_history s)) - 1"
    then show "\<exists>s'. record_view s d = Inr s' \<and>
            pin_history s' = take (nat (history_index s + 1)) (pin_history s) @ [d] \<and>
            history_index s' = int (length (pin_history s')) - 1"
      using rec [of s d] by blast
  next
    assume t: "pin_history t = [A, B, C] \<and> history_index t = 2"
    then have "0 < history_index t" "history_index t < int (length (pin_history t))" by simp_all
    from navigate_back_step [OF this] obtain r1 where
      r1: "navigate_back t = Inr (update_navigation_buttons r1)"
          "pin_history r1 = pin_history t" "history_index r1 = history_index t - 1"
      by blast
    let ?t1 = "update_navigation_buttons r1"
    have t1: "pin_history ?t1 = [A, B, C]" "history_index ?t1 = 1"
      using t r1 by (simp_all add: update_navigation_buttons_fields)
    then have "0 < history_index ?t1" "history_index ?t1 < int (length (pin_history ?t1))"
      by simp_all
    from navigate_back_step [OF this] obtain r2 where
      r2: "navigate_back ?t1 = Inr (update_navigation_buttons r2)"
          "pin_history r2 = pin_history ?t1" "history_index r2 = history_index ?t1 - 1"
      by blast
    let ?t2 = "update_navigation_buttons r2"
    have t2: "pin_history ?t2 = [A, B, C]" "history_index ?t2 = 0"
      using t1 r2 by (simp_all add: update_navigation_buttons_fields)
    then have "- 1 \<le> history_index ?t2" "history_index ?t2 < int (length (pin_history ?t2)) - 1"
      by simp_all
    from rec [OF this, of D] obtain t3 where
      t3: "record_view ?t2 D = Inr t3"
          "pin_history t3 = take (nat (history_index ?t2 + 1)) (pin_history ?t2) @ [D]"
          "history_index t3 = int (length (pin_history t3)) - 1"
      by blast
    have "pin_history t3 = [A, D]" "history_index t3 = 1"
      using t3(2,3) by (simp_all add: t2)
    with r1(1) r2(1) t2(2) t3(1)
    show "\<exists>t1 t2 t3. navigate_back t = Inr t1 \<and> navigate_back t1 = Inr t2 \<and>
            history_index t2 = 0 \<and> record_view t2 D = Inr t3 \<and>
            pin_history t3 = [A, D] \<and> history_index t3 = 1"
      by blast
  }
qed

theorem record_view_discards_forward_witness:
  "(\<exists>s'. record_view
           ((PinoutApp 1500)\<lparr>pin_history := [PinView ''GPIO2'', CategoryView ''adc'' ''ADC Pins'',
                                              PinView ''GPIO4''],
                             history_index := 0\<rparr>) (PinView ''GPIO5'') = Inr s' \<and>
         pin_history s' = [PinView ''GPIO2'', PinView ''GPIO5''] \<and> history_index s' = 1)
   \<and> (\<exists>t1 t2 t3.
         navigate_back
           ((PinoutApp 1500)\<lparr>pin_history := [PinView ''GPIO2'', CategoryView ''adc'' ''ADC Pins'',
                                              PinView ''GPIO4''],
                             history_index := 2\<rparr>) = Inr t1 \<and>
         navigate_back t1 = Inr t2 \<and> history_index t2 = 0 \<and>
         record_view t2 (PinView ''GPIO5'') = Inr t3 \<and>
         pin_history t3 = [PinView ''GPIO2'', PinView ''GPIO5''] \<and> history_index t3 = 1)"
  using record_view_discards_forward
    [of "(PinoutApp 1500)\<lparr>pin_history := [PinView ''GPIO2'', CategoryView ''adc'' ''ADC Pins'',
                                           PinView ''GPIO4''],
                          history_index := 0\<rparr>"
        "PinView ''GPIO5''"
        "(PinoutApp 1500)\<lparr>pin_history := [PinView ''GPIO2'', CategoryView ''adc'' ''ADC Pins'',
                                           PinView ''GPIO4''],
                          history_index := 2\<rparr>"
        "PinView ''GPIO2''" "CategoryView ''adc'' ''ADC Pins''" "PinView ''GPIO4''"
        "PinView ''GPIO5''"]
  by auto

text \<open>
  C2. In a state whose index is \<open>-1\<close> or a position of the history, going back with an
  index above 0 decrements the index and replays the entry now at the index, and does
  nothing otherwise; going forward is symmetric below the last position. Neither changes
  the history, because a replay (\<^verbatim>\<open>from_navigation=True\<close>) records nothing.
\<close>

theorem navigation_keeps_history:
  assumes "- 1 \<le> history_index s" and "history_index s < int (length (pin_history s))"
  shows
    "(\<exists>s'. navigate_back s = Inr s' \<and> pin_history s' = pin_history s \<and>
        (if 0 < history_index s
         then history_index s' = history_index s - 1 \<and>
              (\<exists>r. replay (s\<lparr>history_index := history_index s - 1\<rparr>)
                     (pin_history s ! nat (history_index s - 1)) = Inr r \<and>
                   s' = update_navigation_buttons r)
         else s' = s))
     \<and> (\<exists>s'. navigate_forward s = Inr s' \<and> pin_history s' = pin_history s \<and>
        (if history_index s < int (length (pin_history s)) - 1
         then history_index s' = history_index s + 1 \<and>
              (\<exists>r. replay (s\<lparr>history_index := history_index s + 1\<rparr>)
                     (pin_history s ! nat (history_index s + 1)) = Inr r \<and>
                   s' = update_navigation_buttons r)
         else s' = s))
     \<and> (\<exists>r. replay s e = Inr r \<and> pin_history r = pin_history s \<and>
             history_index r = history_index s)"
proof (intro conjI)
  show "\<exists>s'. navigate_back s = Inr s' \<and> pin_history s' = pin_history s \<and>
        (if 0 < history_index s
         then history_index s' = history_index s - 1 \<and>
              (\<exists>r. replay (s\<lparr>history_index := history_index s - 1\<rparr>)
                     (pin_history s ! nat (history_index s - 1)) = Inr r \<and>
                   s' = update_navigation_buttons r)
         else s' = s)"
  proof (cases "0 < history_index s")
    case True
    from navigate_back_step [OF True assms(2)] obtain r where
      r: "replay (s\<lparr>history_index := history_index s - 1\<rparr>)
            (pin_history s ! nat (history_index s - 1)) = Inr r"
         "navigate_back s = Inr (update_navigation_buttons r)"
         "pin_history r = pin_history s" "history_index r = history_index s - 1"
      by blast
    show ?thesis
      using True r by (simp add: update_navigation_buttons_fields)
  next
    case False
    then show ?thesis by (simp add: navigate_back_def)
  qed
next
  show "\<exists>s'. navigate_forward s = Inr s' \<and> pin_history s' = pin_history s \<and>
        (if history_index s < int (length (pin_history s)) - 1
         then history_index s' = history_index s + 1 \<and>
              (\<exists>r. replay (s\<lparr>history_index := history_index s + 1\<rparr>)
                     (pin_history s ! nat (history_index s + 1)) = Inr r \<and>
                   s' = update_navigation_buttons r)
         else s' = s)"
  proof (cases "history_index s < int (length (pin_history s)) - 1")
    case True
    from navigate_forward_step [OF assms(1) True] obtain r where
      r: "replay (s\<lparr>history_index := history_index s + 1\<rparr>)
            (pin_history s ! nat (history_index s + 1)) = Inr r"
         "navigate_forward s = Inr (update_navigation_buttons r)"
         "pin_history r = pin_history s" "history_index r = history_index s + 1"
      by blast
    show ?thesis
      using True r by (simp add: update_navigation_buttons_fields)
  next
    case False
    then show ?thesis by (simp add: navigate_forward_def)
  qed
next
  show "\<exists>r. replay s e = Inr r \<and> pin_history r = pin_history s \<and>
             history_index r = history_index s"
    using replay_frame [of s e] by blast
qed

theorem navigation_keeps_history_witness:
  "(\<exists>s'. navigate_back
           ((PinoutApp 1500)\<lparr>pin_history := [PinView ''GPIO2'', CategoryView ''adc'' ''ADC Pins'',
                                              PinView ''GPIO4''],
                             history_index := 2\<rparr>) = Inr s' \<and>
         pin_history s' = [PinView ''GPIO2'', CategoryView ''adc'' ''ADC Pins'', PinView ''GPIO4''] \<and>
         history_index s' = 1)
   \<and> navigate_forward
           ((PinoutApp 1500)\<lparr>pin_history := [PinView ''GPIO2'', CategoryView ''adc'' ''ADC Pins'',
                                              PinView ''GPIO4''],
                             history_index := 2\<rparr>)
       = Inr ((PinoutApp 1500)\<lparr>pin_history := [PinView ''GPIO2'',
                                                 CategoryView ''adc'' ''ADC Pins'',
                                                 PinView ''GPIO4''],
                                history_index := 2\<rparr>)"
  using navigation_keeps_history
    [of "(PinoutApp 1500)\<lparr>pin_history := [PinView ''GPIO2'', CategoryView ''adc'' ''ADC Pins'',
                                           PinView ''GPIO4''],
                          history_index := 2\<rparr>"]
  by auto

text \<open>
  C3. From the initial state (empty history, index \<open>-1\<close>), every sequence of pin clicks,
  category clicks, Back and Forward requests runs without an exception, and in the state
  it reaches the Back button is enabled exactly when the index is above 0 and the Forward
  button exactly when the index is before the last position.
\<close>

theorem navigation_buttons_follow_index:
  "pin_history (PinoutApp cw) = [] \<and> history_index (PinoutApp cw) = - 1 \<and>
   (\<exists>s. run (PinoutApp cw) evs = Inr s \<and>
        back_enabled s = (0 < history_index s) \<and>
        forward_enabled s = (history_index s < int (length (pin_history s)) - 1))"
  using nav_inv_run [OF nav_inv_init, of cw evs]
  by (auto simp: nav_inv_def PinoutApp_fields)

text \<open>
  C10. A direct call of \<^verbatim>\<open>show_pin_info\<close> records the pin in the history for every
  pin id: the forward branch is cut, \<^verbatim>\<open>('pin', pin_id)\<close> is appended, the index moves
  to it and the buttons are updated; when the data set has no such pin the info panel
  is left as it was.
\<close>

theorem show_pin_info_records_before_lookup:
  assumes "- 1 \<le> history_index s"
  shows "\<exists>s'. show_pin_info s pin_id False = Inr s' \<and>
           pin_history s' = take (nat (history_index s + 1)) (pin_history s) @ [PinView pin_id] \<and>
           history_index s' = int (length (pin_history s')) - 1 \<and>
           back_enabled s' = (0 < history_index s') \<and>
           forward_enabled s' = (history_index s' < int (length (pin_history s')) - 1) \<and>
           (dict_get (pins (pin_data s)) pin_id = None \<longrightarrow> info_layout s' = info_layout s)"
proof -
  from show_pin_info_direct [of s pin_id] obtain s' where
    s': "show_pin_info s pin_id False = Inr s'"
        "pin_history s' =
           (if history_index s < int (length (pin_history s)) - 1
            then slice_to (pin_history s) (history_index s + 1) else pin_history s)
           @ [PinView pin_id]"
        "history_index s' = int (length (pin_history s')) - 1"
        "back_enabled s' = (history_index s' > 0)"
        "forward_enabled s' = False"
        "info_layout s' = (case dict_get (pins (pin_data s)) pin_id of
                         Some pn \<Rightarrow> pin_widgets pn | None \<Rightarrow> info_layout s)"
    by blast
  have h: "pin_history s' = take (nat (history_index s + 1)) (pin_history s) @ [PinView pin_id]"
    using assms by (simp add: s'(2) slice_to_take)
  show ?thesis
    using s'(1,3,4,5,6) h by auto
qed

theorem show_pin_info_records_before_lookup_witness:
  "dict_get (pins (pin_data (PinoutApp 1500))) ''GPIO20'' = None \<and>
   (\<exists>s'. show_pin_info (PinoutApp 1500) ''GPIO20'' False = Inr s' \<and>
         pin_history s' = [PinView ''GPIO20''] \<and> history_index s' = 0 \<and>
         \<not> back_enabled s' \<and> \<not> forward_enabled s' \<and> info_layout s' = [Placeholder])"
  using show_pin_info_records_before_lookup [of "PinoutApp 1500" "''GPIO20''"]
    GPIO20_absent [of 1500]
  by (auto simp: PinoutApp_fields)

text \<open>
  C4. \<^verbatim>\<open>show_pin_info\<close> does not raise for a pin id that the data set lacks: the
  lookup is \<^verbatim>\<open>pins.get(pin_id)\<close> under the guard \<^verbatim>\<open>if pin:\<close>, so the call returns
  with the highlights cleared and the info panel left as it was.
\<close>

theorem show_pin_info_absent_returns:
  assumes "dict_get (pins (pin_data s)) pin_id = None"
  shows "\<exists>s'. show_pin_info s pin_id from_navigation = Inr s' \<and>
           info_layout s' = info_layout s \<and>
           highlighted_buttons s' = [] \<and> arrow_labels s' = []"
proof (cases from_navigation)
  case True
  with assms show ?thesis using show_pin_info_replay [of s pin_id] by auto
next
  case False
  with assms show ?thesis using show_pin_info_direct [of s pin_id] by auto
qed

theorem show_pin_info_absent_returns_witness:
  "dict_get (pins (pin_data (PinoutApp 1500))) ''GPIO20'' = None \<and>
   (\<exists>s'. show_pin_info (PinoutApp 1500) ''GPIO20'' True = Inr s' \<and>
         info_layout s' = [Placeholder] \<and>
         highlighted_buttons s' = [] \<and> arrow_labels s' = [])"
  using show_pin_info_absent_returns [of "PinoutApp 1500" "''GPIO20''" True]
    GPIO20_absent [of 1500]
  by (auto simp: PinoutApp_fields)

theorem show_pin_info_absent_counterexample:
  "dict_get (pins (pin_data (PinoutApp 1500))) ''GPIO20'' = None \<and>
   map_sum id info_layout (show_pin_info (PinoutApp 1500) ''GPIO20'' False) = Inr [Placeholder]"
proof -
  from show_pin_info_direct [of "PinoutApp 1500" "''GPIO20''"] obtain s' where
    "show_pin_info (PinoutApp 1500) ''GPIO20'' False = Inr s'"
    "info_layout s' = (case dict_get (pins (pin_data (PinoutApp 1500))) ''GPIO20'' of
                         Some pn \<Rightarrow> pin_widgets pn | None \<Rightarrow> info_layout (PinoutApp 1500))"
    by blast
  then show ?thesis
    using GPIO20_absent [of 1500] by (simp add: PinoutApp_fields(5))
qed

text \<open>
  C9. The pin table built at startup has 38 entries under 38 different keys: the 32 keys
  with the prefix \<open>GPIO\<close>, and \<open>EN\<close>, \<open>VIN\<close>, \<open>3V3\<close> and the three \<open>GND\<close> pins.
\<close>

theorem pin_table_entries:
  "length (pins ESP32PinData) = 38 \<and>
   distinct (dict_keys (pins ESP32PinData)) \<and>
   length (filter (\<lambda>k. startswith k ''GPIO'') (dict_keys (pins ESP32PinData))) = 32 \<and>
   filter (\<lambda>k. \<not> startswith k ''GPIO'') (dict_keys (pins ESP32PinData))
     = [''EN'', ''VIN'', ''3V3'', ''GND2'', ''GND3'', ''GND1'']"
proof (intro conjI)
  show "length (pins ESP32PinData) = 38" by (rule pin_keys_length)
  show "distinct (dict_keys (pins ESP32PinData))"
    using pin_items_distinct by (simp add: ESP32PinData_pins dict_keys_def)
  show "length (filter (\<lambda>k. startswith k ''GPIO'') (dict_keys (pins ESP32PinData))) = 32"
    unfolding gpio_keys_value by simp
  show "filter (\<lambda>k. \<not> startswith k ''GPIO'') (dict_keys (pins ESP32PinData))
     = [''EN'', ''VIN'', ''3V3'', ''GND2'', ''GND3'', ''GND1'']"
    by (rule other_keys_value)
qed

theorem pin_table_entries_counterexample:
  "length (filter (\<lambda>k. startswith k ''GPIO'') (dict_keys (pins ESP32PinData))) \<noteq> 30"
  unfolding gpio_keys_value by simp

text \<open>
  C5. A category key that is none of \<^verbatim>\<open>'i2c'\<close>, \<^verbatim>\<open>'adc'\<close>, \<^verbatim>\<open>'spi'\<close>, \<^verbatim>\<open>'pwm'\<close>,
  \<^verbatim>\<open>'power'\<close>, \<^verbatim>\<open>'Input only'\<close> and \<^verbatim>\<open>'Input/Output'\<close> takes the final \<^verbatim>\<open>else\<close>
  branch, whether it is \<^verbatim>\<open>'default'\<close> or unknown: the call does not fail, and it resolves
  and highlights the list of \<^verbatim>\<open>'default'\<close>, the keys of the pin buttons that start with
  \<open>GPIO\<close> and are in none of the seven membership lists.
\<close>

theorem unknown_category_is_default:
  assumes "category_key \<notin> {''i2c'', ''adc'', ''spi'', ''pwm'', ''power'', ''Input only'',
                             ''Input/Output''}"
  shows "category_pins s category_key = category_pins s ''default'' \<and>
         category_pins s category_key
           = filter (\<lambda>pin_id. pin_id \<notin> set (i2c_pins (pin_data s) @ adc_pins (pin_data s)
                                   @ spi_pins (pin_data s) @ pwm_pins (pin_data s)
                                   @ power_pins (pin_data s) @ input_only_pins (pin_data s)
                                   @ in_out_pins (pin_data s))
                              \<and> startswith pin_id ''GPIO'')
                    (dict_keys (pin_buttons s)) \<and>
         (\<exists>s'. show_category_pins s category_key category_name from_navigation = Inr s' \<and>
               highlighted_buttons s' = category_pins s ''default'')"
proof -
  have eq: "category_pins s category_key = category_pins s ''default''"
    using assms by (simp add: category_pins_def)
  have flt: "category_pins s ''default''
           = filter (\<lambda>pin_id. pin_id \<notin> set (i2c_pins (pin_data s) @ adc_pins (pin_data s)
                                   @ spi_pins (pin_data s) @ pwm_pins (pin_data s)
                                   @ power_pins (pin_data s) @ input_only_pins (pin_data s)
                                   @ in_out_pins (pin_data s))
                              \<and> startswith pin_id ''GPIO'')
                    (dict_keys (pin_buttons s))"
    by (simp add: category_pins_def Let_def)
  have "\<exists>s'. show_category_pins s category_key category_name from_navigation = Inr s' \<and>
          highlighted_buttons s'
            = filter (dict_contains (pin_buttons s)) (category_pins s category_key)"
  proof (cases from_navigation)
    case True
    then show ?thesis
      using show_category_pins_replay [of s category_key category_name] by auto
  next
    case False
    then show ?thesis
      using show_category_pins_direct [of s category_key category_name] by auto
  qed
  then have "\<exists>s'. show_category_pins s category_key category_name from_navigation = Inr s' \<and>
          highlighted_buttons s' = category_pins s ''default''"
    by (simp only: eq default_pins_are_buttons)
  moreover have "category_pins s category_key
           = filter (\<lambda>pin_id. pin_id \<notin> set (i2c_pins (pin_data s) @ adc_pins (pin_data s)
                                   @ spi_pins (pin_data s) @ pwm_pins (pin_data s)
                                   @ power_pins (pin_data s) @ input_only_pins (pin_data s)
                                   @ in_out_pins (pin_data s))
                              \<and> startswith pin_id ''GPIO'')
                    (dict_keys (pin_buttons s))"
    by (simp only: eq flt [symmetric])
  ultimately show ?thesis using eq by (intro conjI)
qed

theorem unknown_category_is_default_witness:
  "category_pins (PinoutApp 1500) ''unknown'' = category_pins (PinoutApp 1500) ''default'' \<and>
   (\<exists>s'. show_category_pins (PinoutApp 1500) ''unknown'' ''Unknown'' False = Inr s' \<and>
         highlighted_buttons s' = category_pins (PinoutApp 1500) ''default'')"
  using unknown_category_is_default [of "''unknown''" "PinoutApp 1500" "''Unknown''" False]
  by simp

theorem unknown_category_counterexample:
  "category_pins (PinoutApp 1500) ''unknown''
     = [''GPIO6'', ''GPIO7'', ''GPIO8'', ''GPIO9'', ''GPIO10'', ''GPIO11''] \<and>
   map_sum id highlighted_buttons
       (show_category_pins (PinoutApp 1500) ''unknown'' ''Unknown'' False)
     = Inr [''GPIO6'', ''GPIO7'', ''GPIO8'', ''GPIO9'', ''GPIO10'', ''GPIO11'']"
proof -
  have eq: "category_pins (PinoutApp 1500) ''unknown'' = category_pins (PinoutApp 1500) ''default''"
    by (simp add: category_pins_def)
  from show_category_pins_direct [of "PinoutApp 1500" "''unknown''" "''Unknown''"] obtain s' where
    s': "show_category_pins (PinoutApp 1500) ''unknown'' ''Unknown'' False = Inr s'"
        "highlighted_buttons s' = filter (dict_contains (pin_buttons (PinoutApp 1500)))
                                    (category_pins (PinoutApp 1500) ''unknown'')"
    by blast
  have "highlighted_buttons s' = category_pins (PinoutApp 1500) ''default''"
    by (simp only: s'(2) eq default_pins_are_buttons)
  then show ?thesis
    by (simp add: s'(1) eq default_pins_value)
qed

text \<open>
  C6. In every state the application reaches, the category key \<^verbatim>\<open>'Input only'\<close>
  resolves to exactly the pins of the table whose type is \<^verbatim>\<open>'Input only'\<close>, and these
  are GPIO12, GPIO34, GPIO35, GPIO36 and GPIO39; the sorted list is the one shown.
  \<^verbatim>\<open>show_category_pins\<close> with that key returns, highlights the buttons of these five
  pins and fills the info panel with the header, counting 5 pins, and their five tags in
  sorted order.
\<close>

theorem input_only_category:
  "\<exists>s. run (PinoutApp cw) evs = Inr s \<and>
       set (category_pins s ''Input only'')
         = {k. \<exists>p. dict_get (pins (pin_data s)) k = Some p \<and> pin_type p = ''Input only''} \<and>
       set (category_pins s ''Input only'')
         = {''GPIO12'', ''GPIO34'', ''GPIO35'', ''GPIO36'', ''GPIO39''} \<and>
       sort (category_pins s ''Input only'')
         = [''GPIO12'', ''GPIO34'', ''GPIO35'', ''GPIO36'', ''GPIO39''] \<and>
       (\<exists>s'. show_category_pins s ''Input only'' category_name from_navigation = Inr s' \<and>
             highlighted_buttons s'
               = [''GPIO12'', ''GPIO34'', ''GPIO35'', ''GPIO36'', ''GPIO39''] \<and>
             info_layout s'
               = [CategoryHeader category_name 5, SectionHeader ''Pins in this category:'',
                  PinTagButton ''GPIO12'' ''GPIO12'' ''#3498db'',
                  PinTagButton ''GPIO34'' ''GPIO34'' ''#9b59b6'',
                  PinTagButton ''GPIO35'' ''GPIO35'' ''#e74c3c'',
                  PinTagButton ''GPIO36'' ''GPIO36 (VP)'' ''#f39c12'',
                  PinTagButton ''GPIO39'' ''GPIO39 (VN)'' ''#1abc9c'', Stretch])"
proof -
  from run_reaches [of cw evs] obtain s where
    s: "run (PinoutApp cw) evs = Inr s" "pin_data s = ESP32PinData"
       "dict_contains (pin_buttons s) = dict_contains (pin_buttons (PinoutApp cw))"
       "category_pins s ''Input only'' = category_pins (PinoutApp cw) ''Input only''"
    by blast
  have val: "category_pins s ''Input only''
               = [''GPIO12'', ''GPIO34'', ''GPIO35'', ''GPIO36'', ''GPIO39'']"
    by (simp only: s(4) input_only_category_value)
  have "category_pins s ''Input only'' = pins_of_type (pins ESP32PinData) ''Input only''"
    by (simp only: val input_only_pins_value ESP32PinData_pins initialize_pins_items [symmetric])
  then have chr: "set (category_pins s ''Input only'')
         = {k. \<exists>p. dict_get (pins (pin_data s)) k = Some p \<and> pin_type p = ''Input only''}"
    using pins_of_type_set [of "pins ESP32PinData" "''Input only''"] pin_items_distinct
    by (simp add: s(2) ESP32PinData_pins)
  have st: "set (category_pins s ''Input only'')
         = {''GPIO12'', ''GPIO34'', ''GPIO35'', ''GPIO36'', ''GPIO39''}"
    unfolding val by simp
  have srt: "sort (category_pins s ''Input only'')
         = [''GPIO12'', ''GPIO34'', ''GPIO35'', ''GPIO36'', ''GPIO39'']"
    by (simp only: val sort_input_only_pins)
  from show_category_pins_highlighted [of s "''Input only''" category_name from_navigation]
    show_category_pins_layout [of s "''Input only''" category_name from_navigation]
  obtain s' where
    s': "show_category_pins s ''Input only'' category_name from_navigation = Inr s'"
        "highlighted_buttons s'
           = filter (dict_contains (pin_buttons s)) (category_pins s ''Input only'')"
        "info_layout s'
           = info_layout (display_category_info s category_name (category_pins s ''Input only''))"
    by auto
  have hl: "highlighted_buttons s' = [''GPIO12'', ''GPIO34'', ''GPIO35'', ''GPIO36'', ''GPIO39'']"
    by (simp only: s'(2) val s(3) input_only_pins_are_buttons)
  have panel: "info_layout s'
               = [CategoryHeader category_name 5, SectionHeader ''Pins in this category:'',
                  PinTagButton ''GPIO12'' ''GPIO12'' ''#3498db'',
                  PinTagButton ''GPIO34'' ''GPIO34'' ''#9b59b6'',
                  PinTagButton ''GPIO35'' ''GPIO35'' ''#e74c3c'',
                  PinTagButton ''GPIO36'' ''GPIO36 (VP)'' ''#f39c12'',
                  PinTagButton ''GPIO39'' ''GPIO39 (VN)'' ''#1abc9c'', Stretch]"
    by (simp only: s'(3) val input_only_panel [OF s(2)])
  have handler: "\<exists>s'. show_category_pins s ''Input only'' category_name from_navigation = Inr s' \<and>
             highlighted_buttons s'
               = [''GPIO12'', ''GPIO34'', ''GPIO35'', ''GPIO36'', ''GPIO39''] \<and>
             info_layout s'
               = [CategoryHeader category_name 5, SectionHeader ''Pins in this category:'',
                  PinTagButton ''GPIO12'' ''GPIO12'' ''#3498db'',
                  PinTagButton ''GPIO34'' ''GPIO34'' ''#9b59b6'',
                  PinTagButton ''GPIO35'' ''GPIO35'' ''#e74c3c'',
                  PinTagButton ''GPIO36'' ''GPIO36 (VP)'' ''#f39c12'',
                  PinTagButton ''GPIO39'' ''GPIO39 (VN)'' ''#1abc9c'', Stretch]"
    by (rule exI [of _ s'], intro conjI) (rule s'(1) hl panel)+
  show ?thesis
    by (rule exI [of _ s], intro conjI) (rule s(1) chr st srt handler)+
qed

theorem input_only_category_counterexample:
  "set (category_pins (PinoutApp 1500) ''Input only'')
     \<noteq> {''GPIO34'', ''GPIO35'', ''GPIO36'', ''GPIO39'', ''GPIO12'', ''GPIO15''}
   \<and> map_sum id highlighted_buttons
         (show_category_pins (PinoutApp 1500) ''Input only'' ''Input Only Pins'' False)
       = Inr [''GPIO12'', ''GPIO34'', ''GPIO35'', ''GPIO36'', ''GPIO39'']"
proof
  have out: "''GPIO15'' \<notin> set (category_pins (PinoutApp 1500) ''Input only'')"
    unfolding input_only_category_value by simp
  show "set (category_pins (PinoutApp 1500) ''Input only'')
     \<noteq> {''GPIO34'', ''GPIO35'', ''GPIO36'', ''GPIO39'', ''GPIO12'', ''GPIO15''}"
  proof
    assume "set (category_pins (PinoutApp 1500) ''Input only'')
              = {''GPIO34'', ''GPIO35'', ''GPIO36'', ''GPIO39'', ''GPIO12'', ''GPIO15''}"
    then have "''GPIO15'' \<in> set (category_pins (PinoutApp 1500) ''Input only'')"
      by (simp only: insert_iff simp_thms)
    with out show False by (rule notE)
  qed
  from show_category_pins_highlighted [of "PinoutApp 1500" "''Input only''" "''Input Only Pins''"
      False]
  obtain s' where
    s': "show_category_pins (PinoutApp 1500) ''Input only'' ''Input Only Pins'' False = Inr s'"
        "highlighted_buttons s'
           = filter (dict_contains (pin_buttons (PinoutApp 1500)))
               (category_pins (PinoutApp 1500) ''Input only'')"
    by blast
  have "highlighted_buttons s' = [''GPIO12'', ''GPIO34'', ''GPIO35'', ''GPIO36'', ''GPIO39'']"
    by (simp only: s'(2) input_only_category_value input_only_pins_are_buttons)
  then show "map_sum id highlighted_buttons
         (show_category_pins (PinoutApp 1500) ''Input only'' ''Input Only Pins'' False)
       = Inr [''GPIO12'', ''GPIO34'', ''GPIO35'', ''GPIO36'', ''GPIO39'']"
    by (simp add: s'(1))
qed

text \<open>
  C7. In every state the application reaches, the category key \<^verbatim>\<open>'default'\<close>
  resolves to exactly the keys of the pin buttons that start with \<open>GPIO\<close> and are in none
  of the lists i2c, adc, spi, pwm and power: GPIO6 to GPIO11. EN, VIN and GND1 are not
  among them. The keys of the pin buttons are the keys of the pin table.
  \<^verbatim>\<open>show_category_pins\<close> with that key returns, highlights the buttons of these six pins
  and fills the info panel with the header, counting 6 pins, and their six tags in sorted
  order.
\<close>

theorem default_category:
  "\<exists>s. run (PinoutApp cw) evs = Inr s \<and>
       category_pins s ''default''
         = filter (\<lambda>k. startswith k ''GPIO'' \<and>
                        k \<notin> set (i2c_pins (pin_data s) @ adc_pins (pin_data s)
                                 @ spi_pins (pin_data s) @ pwm_pins (pin_data s)
                                 @ power_pins (pin_data s)))
                  (dict_keys (pin_buttons s)) \<and>
       category_pins s ''default''
         = [''GPIO6'', ''GPIO7'', ''GPIO8'', ''GPIO9'', ''GPIO10'', ''GPIO11''] \<and>
       ''EN'' \<notin> set (category_pins s ''default'') \<and>
       ''VIN'' \<notin> set (category_pins s ''default'') \<and>
       ''GND1'' \<notin> set (category_pins s ''default'') \<and>
       set (dict_keys (pin_buttons s)) = set (dict_keys (pins (pin_data s))) \<and>
       (\<exists>s'. show_category_pins s ''default'' category_name from_navigation = Inr s' \<and>
             highlighted_buttons s'
               = [''GPIO6'', ''GPIO7'', ''GPIO8'', ''GPIO9'', ''GPIO10'', ''GPIO11''] \<and>
             info_layout s'
               = [CategoryHeader category_name 6, SectionHeader ''Pins in this category:'',
                  PinTagButton ''GPIO10'' ''GPIO10'' ''#3498db'',
                  PinTagButton ''GPIO11'' ''GPIO11'' ''#9b59b6'',
                  PinTagButton ''GPIO6'' ''GPIO6'' ''#e74c3c'',
                  PinTagButton ''GPIO7'' ''GPIO7'' ''#f39c12'',
                  PinTagButton ''GPIO8'' ''GPIO8'' ''#1abc9c'',
                  PinTagButton ''GPIO9'' ''GPIO9'' ''#34495e'', Stretch])"
proof -
  from run_reaches [of cw evs] obtain s where
    s: "run (PinoutApp cw) evs = Inr s" "pin_data s = ESP32PinData"
       "dict_keys (pin_buttons s) = dict_keys (pin_buttons (PinoutApp cw))"
       "category_pins s ''default'' = category_pins (PinoutApp cw) ''default''"
    by blast
  have val: "category_pins s ''default''
               = [''GPIO6'', ''GPIO7'', ''GPIO8'', ''GPIO9'', ''GPIO10'', ''GPIO11'']"
    by (simp only: s(4) default_pins_value)
  have flt: "category_pins s ''default''
         = filter (\<lambda>k. startswith k ''GPIO'' \<and>
                        k \<notin> set (i2c_pins (pin_data s) @ adc_pins (pin_data s)
                                 @ spi_pins (pin_data s) @ pwm_pins (pin_data s)
                                 @ power_pins (pin_data s)))
                  (dict_keys (pin_buttons s))"
    by (simp only: val s(2,3) default_five_lists_value)
  have out: "''EN'' \<notin> set (category_pins s ''default'')"
    "''VIN'' \<notin> set (category_pins s ''default'')"
    "''GND1'' \<notin> set (category_pins s ''default'')"
    unfolding val by simp_all
  have keys: "set (dict_keys (pin_buttons s)) = set (dict_keys (pins (pin_data s)))"
    by (simp only: s(2,3) button_keys_are_pin_keys)
  from show_category_pins_highlighted [of s "''default''" category_name from_navigation]
    show_category_pins_layout [of s "''default''" category_name from_navigation]
  obtain s' where
    s': "show_category_pins s ''default'' category_name from_navigation = Inr s'"
        "highlighted_buttons s'
           = filter (dict_contains (pin_buttons s)) (category_pins s ''default'')"
        "info_layout s'
           = info_layout (display_category_info s category_name (category_pins s ''default''))"
    by auto
  have hl: "highlighted_buttons s'
              = [''GPIO6'', ''GPIO7'', ''GPIO8'', ''GPIO9'', ''GPIO10'', ''GPIO11'']"
    using s'(2) default_pins_are_buttons [of s] by (simp only: val)
  have panel: "info_layout s'
               = [CategoryHeader category_name 6, SectionHeader ''Pins in this category:'',
                  PinTagButton ''GPIO10'' ''GPIO10'' ''#3498db'',
                  PinTagButton ''GPIO11'' ''GPIO11'' ''#9b59b6'',
                  PinTagButton ''GPIO6'' ''GPIO6'' ''#e74c3c'',
                  PinTagButton ''GPIO7'' ''GPIO7'' ''#f39c12'',
                  PinTagButton ''GPIO8'' ''GPIO8'' ''#1abc9c'',
                  PinTagButton ''GPIO9'' ''GPIO9'' ''#34495e'', Stretch]"
    by (simp only: s'(3) val default_panel [OF s(2)])
  have handler: "\<exists>s'. show_category_pins s ''default'' category_name from_navigation = Inr s' \<and>
             highlighted_buttons s'
               = [''GPIO6'', ''GPIO7'', ''GPIO8'', ''GPIO9'', ''GPIO10'', ''GPIO11''] \<and>
             info_layout s'
               = [CategoryHeader category_name 6, SectionHeader ''Pins in this category:'',
                  PinTagButton ''GPIO10'' ''GPIO10'' ''#3498db'',
                  PinTagButton ''GPIO11'' ''GPIO11'' ''#9b59b6'',
                  PinTagButton ''GPIO6'' ''GPIO6'' ''#e74c3c'',
                  PinTagButton ''GPIO7'' ''GPIO7'' ''#f39c12'',
                  PinTagButton ''GPIO8'' ''GPIO8'' ''#1abc9c'',
                  PinTagButton ''GPIO9'' ''GPIO9'' ''#34495e'', Stretch]"
    by (rule exI [of _ s'], intro conjI) (rule s'(1) hl panel)+
  show ?thesis
    by (rule exI [of _ s], intro conjI) (rule s(1) flt val out keys handler)+
qed

text \<open>
  C8. \<^verbatim>\<open>show_pin_info\<close> leaves no highlighted button and no arrow. After
  \<^verbatim>\<open>show_category_pins\<close> the highlighted buttons are exactly those of the pins of the new
  category, whatever was highlighted before, with one arrow for each.
  \<^verbatim>\<open>_clear_highlights\<close> empties both lists and is idempotent; after
  \<^verbatim>\<open>show_pin_info('GPIO0')\<close> it changes nothing and the lists stay empty.
  In every state the application reaches, the buttons that carry the highlight style
  sheet are exactly the buttons in \<^verbatim>\<open>highlighted_buttons\<close>; from there
  \<^verbatim>\<open>_clear_highlights\<close> and \<^verbatim>\<open>show_pin_info\<close> leave no button with the highlight
  style, and \<^verbatim>\<open>show_category_pins\<close> leaves it on the buttons of the new category only.
\<close>

theorem highlights_cleared_before_view:
  "(\<exists>s'. show_pin_info s pin_id from_navigation = Inr s' \<and>
         highlighted_buttons s' = [] \<and> arrow_labels s' = [])
   \<and> (\<exists>s'. show_category_pins s category_key category_name from_navigation = Inr s' \<and>
         highlighted_buttons s'
           = filter (dict_contains (pin_buttons s)) (category_pins s category_key) \<and>
         length (arrow_labels s') = length (highlighted_buttons s'))
   \<and> highlighted_buttons (clear_highlights s) = [] \<and> arrow_labels (clear_highlights s) = []
   \<and> clear_highlights (clear_highlights s) = clear_highlights s
   \<and> (\<exists>s'. show_pin_info s ''GPIO0'' from_navigation = Inr s' \<and>
         clear_highlights s' = s' \<and>
         highlighted_buttons (clear_highlights s') = [] \<and>
         arrow_labels (clear_highlights s') = [])
   \<and> (\<exists>r. run (PinoutApp cw) evs = Inr r \<and>
         set (styled_buttons r) = set (highlighted_buttons r) \<and>
         styled_buttons (clear_highlights r) = [] \<and>
         (\<exists>s'. show_pin_info r pin_id from_navigation = Inr s' \<and>
               styled_buttons s' = [] \<and> highlighted_buttons s' = [] \<and> arrow_labels s' = []) \<and>
         (\<exists>s'. show_category_pins r category_key category_name from_navigation = Inr s' \<and>
               set (styled_buttons s') = set (highlighted_buttons s') \<and>
               highlighted_buttons s'
                 = filter (dict_contains (pin_buttons r)) (category_pins r category_key) \<and>
               length (arrow_labels s') = length (highlighted_buttons s')))"
proof -
  have idem: "clear_highlights t = t" if "highlighted_buttons t = []" "arrow_labels t = []" for t
    using that by (simp add: clear_highlights_def)
  have pin: "\<exists>s'. show_pin_info t p from_navigation = Inr s' \<and>
         highlighted_buttons s' = [] \<and> arrow_labels s' = []" for t p
  proof (cases from_navigation)
    case True
    then show ?thesis using show_pin_info_replay [of t p] by auto
  next
    case False
    then show ?thesis using show_pin_info_direct [of t p] by auto
  qed
  have cat: "\<exists>s'. show_category_pins t category_key category_name from_navigation = Inr s' \<and>
         highlighted_buttons s'
           = filter (dict_contains (pin_buttons t)) (category_pins t category_key) \<and>
         length (arrow_labels s') = length (highlighted_buttons s')" for t
    by (rule show_category_pins_highlighted)
  have clr: "highlighted_buttons (clear_highlights s) = []" "arrow_labels (clear_highlights s) = []"
    by (simp_all add: clear_highlights_fields)
  have twice: "clear_highlights (clear_highlights s) = clear_highlights s"
    by (rule idem) (rule clr)+
  from pin [of s "''GPIO0''"] obtain s0 where
    s0: "show_pin_info s ''GPIO0'' from_navigation = Inr s0"
        "highlighted_buttons s0 = []" "arrow_labels s0 = []" by blast
  have "clear_highlights s0 = s0" by (rule idem) (rule s0)+
  with s0 have gpio0: "\<exists>s'. show_pin_info s ''GPIO0'' from_navigation = Inr s' \<and>
         clear_highlights s' = s' \<and>
         highlighted_buttons (clear_highlights s') = [] \<and>
         arrow_labels (clear_highlights s') = []"
    by simp
  have none: "styled_buttons t = []" if "hl_inv t" "highlighted_buttons t = []" for t
  proof -
    from styled_buttons_set [OF that(1)] that(2) have "set (styled_buttons t) = {}" by simp
    then show ?thesis by simp
  qed
  from run_reaches [of cw evs] obtain r where
    r: "run (PinoutApp cw) evs = Inr r" "hl_inv r" by blast
  have r1: "set (styled_buttons r) = set (highlighted_buttons r)"
    using r(2) by (rule styled_buttons_set)
  have r2: "styled_buttons (clear_highlights r) = []"
    by (rule none) (simp_all add: hl_inv_clear [OF r(2)] clear_highlights_fields)
  from pin [of r pin_id] obtain p' where
    p': "show_pin_info r pin_id from_navigation = Inr p'"
        "highlighted_buttons p' = []" "arrow_labels p' = []" by blast
  have "styled_buttons p' = []"
    by (rule none) (rule hl_inv_show_pin_info [OF r(2) p'(1)] p'(2))+
  with p' have r3: "\<exists>s'. show_pin_info r pin_id from_navigation = Inr s' \<and>
               styled_buttons s' = [] \<and> highlighted_buttons s' = [] \<and> arrow_labels s' = []"
    by simp
  from cat [of r] obtain c' where
    c': "show_category_pins r category_key category_name from_navigation = Inr c'"
        "highlighted_buttons c'
           = filter (dict_contains (pin_buttons r)) (category_pins r category_key)"
        "length (arrow_labels c') = length (highlighted_buttons c')" by blast
  have "set (styled_buttons c') = set (highlighted_buttons c')"
    by (rule styled_buttons_set) (rule hl_inv_show_category_pins [OF r(2) c'(1)])
  with c' have r4: "\<exists>s'. show_category_pins r category_key category_name from_navigation = Inr s' \<and>
               set (styled_buttons s') = set (highlighted_buttons s') \<and>
               highlighted_buttons s'
                 = filter (dict_contains (pin_buttons r)) (category_pins r category_key) \<and>
               length (arrow_labels s') = length (highlighted_buttons s')"
    by simp
  have reach: "\<exists>r. run (PinoutApp cw) evs = Inr r \<and>
         set (styled_buttons r) = set (highlighted_buttons r) \<and>
         styled_buttons (clear_highlights r) = [] \<and>
         (\<exists>s'. show_pin_info r pin_id from_navigation = Inr s' \<and>
               styled_buttons s' = [] \<and> highlighted_buttons s' = [] \<and> arrow_labels s' = []) \<and>
         (\<exists>s'. show_category_pins r category_key category_name from_navigation = Inr s' \<and>
               set (styled_buttons s') = set (highlighted_buttons s') \<and>
               highlighted_buttons s'
                 = filter (dict_contains (pin_buttons r)) (category_pins r category_key) \<and>
               length (arrow_labels s') = length (highlighted_buttons s'))"
    by (rule exI [of _ r], intro conjI) (rule r(1) r1 r2 r3 r4)+
  show ?thesis
    by (intro conjI) (rule pin cat clr twice gpio0 reach)+
qed

end
